theory Spec2Isabelle
  imports Complex_Main
begin

section \<open>Market data service: provider routing\<close>

text \<open>
  The service of \<^verbatim>\<open>src/services/marketDataService.js\<close> holds one mutable field, the
  default provider id, and three upstream clients. An upstream client is the network: a call
  either resolves to a value or rejects with an error. The embedding makes both explicit.

  \<^item> An adapter method (\<^verbatim>\<open>getQuoteFinnhub\<close>, \<^verbatim>\<open>getQuoteAlphaVantage\<close>, ...) is a
    call to the environment. The environment is a function of the calls made so far, the
    adapter and the arguments; it answers \<open>Inl error\<close> (the promise rejects, the adapter
    throws) or \<open>Inr value\<close>. Nothing is assumed about it: the same adapter may answer
    differently on a later call.
  \<^item> Every router function takes the list of upstream calls made so far and returns it
    extended, so that the number and the targets of the calls can be read off the result.
  \<^item> The optional \<^verbatim>\<open>provider\<close> parameter is a \<open>string option\<close>: \<open>None\<close> is the omitted
    argument, which JavaScript replaces by \<^verbatim>\<open>this.defaultProvider\<close>.
\<close>

datatype adapter = Finnhub | AlphaVantage | Polygon

datatype error = Error string

record service =
  defaultProvider :: string

type_synonym ('a, 'e, 'r) upstream = "(adapter \<times> 'a) list \<Rightarrow> adapter \<Rightarrow> 'a \<Rightarrow> 'e + 'r"

text \<open>The constructor: \<^verbatim>\<open>this.defaultProvider = 'finnhub'\<close>.\<close>

definition constructor :: service where
  "constructor = \<lparr>defaultProvider = ''finnhub''\<rparr>"

text \<open>
  \<^verbatim>\<open>setDefaultProvider(provider)\<close>: the field is assigned when the id is one of the three
  known ones, otherwise an \<^verbatim>\<open>Error\<close> is thrown. The result pairs the outcome with the
  service state after the call.
\<close>

definition setDefaultProvider :: "service \<Rightarrow> string \<Rightarrow> (error + unit) \<times> service" where
  "setDefaultProvider svc provider =
     (if provider \<in> set [''finnhub'', ''alphavantage'', ''polygon'']
      then (Inr (), svc\<lparr>defaultProvider := provider\<rparr>)
      else (Inl (Error ''Invalid provider. Choose from: finnhub, alphavantage, polygon''), svc))"

text \<open>The default parameter value \<^verbatim>\<open>provider = this.defaultProvider\<close>.\<close>

definition selected :: "service \<Rightarrow> string option \<Rightarrow> string" where
  "selected svc providerArg = (case providerArg of None \<Rightarrow> defaultProvider svc | Some p \<Rightarrow> p)"

text \<open>
  The \<^verbatim>\<open>switch (provider)\<close> of \<^verbatim>\<open>getQuote\<close>, \<^verbatim>\<open>getCompanyProfile\<close> and
  \<^verbatim>\<open>getHistoricalData\<close>: three cases and a \<^verbatim>\<open>default\<close> that goes to Finnhub.
\<close>

definition dispatch :: "string \<Rightarrow> adapter" where
  "dispatch provider =
     (if provider = ''finnhub'' then Finnhub
      else if provider = ''alphavantage'' then AlphaVantage
      else if provider = ''polygon'' then Polygon
      else Finnhub)"

text \<open>
  The \<^verbatim>\<open>switch (provider)\<close> of \<^verbatim>\<open>getOptionsChain\<close>: only \<^verbatim>\<open>'finnhub'\<close> and
  \<^verbatim>\<open>'polygon'\<close> have a case; every other id, \<^verbatim>\<open>'alphavantage'\<close> included, takes the
  \<^verbatim>\<open>default\<close> branch to Finnhub.
\<close>

definition dispatchOptions :: "string \<Rightarrow> adapter" where
  "dispatchOptions provider =
     (if provider = ''finnhub'' then Finnhub
      else if provider = ''polygon'' then Polygon
      else Finnhub)"

text \<open>
  \<^verbatim>\<open>const fallbackProvider = provider === 'finnhub' ? 'alphavantage' : 'finnhub'\<close>
\<close>

definition fallbackProvider :: "string \<Rightarrow> string" where
  "fallbackProvider provider = (if provider = ''finnhub'' then ''alphavantage'' else ''finnhub'')"

subsection \<open>getQuote and getCompanyProfile\<close>

text \<open>
  \<^verbatim>\<open>try { switch ... return await adapter(symbol) } catch (error) {
       if (provider === this.defaultProvider) return this.getQuote(symbol, fallbackProvider);
       throw error; }\<close>
  The function calls itself in the handler. The recursion ends because the fallback id differs
  from the id that failed, which was the default.
\<close>

function getQuote ::
  "(string, 'e, 'r) upstream \<Rightarrow> service \<Rightarrow> (adapter \<times> string) list \<Rightarrow> string \<Rightarrow> string option
     \<Rightarrow> ('e + 'r) \<times> (adapter \<times> string) list" where
  "getQuote up svc calls symbol providerArg =
     (let provider = selected svc providerArg in
      case up calls (dispatch provider) symbol of
        Inr quote \<Rightarrow> (Inr quote, calls @ [(dispatch provider, symbol)])
      | Inl error \<Rightarrow>
          if provider = defaultProvider svc
          then getQuote up svc (calls @ [(dispatch provider, symbol)]) symbol
                 (Some (fallbackProvider provider))
          else (Inl error, calls @ [(dispatch provider, symbol)]))"
  by pat_completeness auto
termination
  by (relation "measure (\<lambda>(up, svc, calls, symbol, providerArg).
        if selected svc providerArg = defaultProvider svc then 1 else 0)")
     (auto simp: selected_def fallbackProvider_def split: if_splits)

declare getQuote.simps [simp del]

function getCompanyProfile ::
  "(string, 'e, 'r) upstream \<Rightarrow> service \<Rightarrow> (adapter \<times> string) list \<Rightarrow> string \<Rightarrow> string option
     \<Rightarrow> ('e + 'r) \<times> (adapter \<times> string) list" where
  "getCompanyProfile up svc calls symbol providerArg =
     (let provider = selected svc providerArg in
      case up calls (dispatch provider) symbol of
        Inr profile \<Rightarrow> (Inr profile, calls @ [(dispatch provider, symbol)])
      | Inl error \<Rightarrow>
          if provider = defaultProvider svc
          then getCompanyProfile up svc (calls @ [(dispatch provider, symbol)]) symbol
                 (Some (fallbackProvider provider))
          else (Inl error, calls @ [(dispatch provider, symbol)]))"
  by pat_completeness auto
termination
  by (relation "measure (\<lambda>(up, svc, calls, symbol, providerArg).
        if selected svc providerArg = defaultProvider svc then 1 else 0)")
     (auto simp: selected_def fallbackProvider_def split: if_splits)

declare getCompanyProfile.simps [simp del]

subsection \<open>getHistoricalData\<close>

text \<open>
  The Finnhub adapter receives the window as epoch seconds
  (\<^verbatim>\<open>new Date(from).getTime() / 1000\<close>), the other two receive the date strings. The
  conversion belongs to the JavaScript runtime and is a parameter, \<open>epochSeconds\<close>; it
  never throws (an unparsable date gives \<^verbatim>\<open>NaN\<close>). The interval defaults to
  \<^verbatim>\<open>'1d'\<close>.
\<close>

datatype 'n hist_args =
    Stamps string string 'n 'n
  | Dates string string string string

definition hist_args_for ::
  "(string \<Rightarrow> 'n) \<Rightarrow> adapter \<Rightarrow> string \<Rightarrow> string \<Rightarrow> string \<Rightarrow> string \<Rightarrow> 'n hist_args" where
  "hist_args_for epochSeconds a symbol interval from to =
     (case a of
        Finnhub \<Rightarrow> Stamps symbol interval (epochSeconds from) (epochSeconds to)
      | AlphaVantage \<Rightarrow> Dates symbol interval from to
      | Polygon \<Rightarrow> Dates symbol interval from to)"

definition interval_of :: "string option \<Rightarrow> string" where
  "interval_of intervalArg = (case intervalArg of None \<Rightarrow> ''1d'' | Some i \<Rightarrow> i)"

function getHistoricalData ::
  "(string \<Rightarrow> 'n) \<Rightarrow> ('n hist_args, 'e, 'r) upstream \<Rightarrow> service \<Rightarrow> (adapter \<times> 'n hist_args) list
     \<Rightarrow> string \<Rightarrow> string option \<Rightarrow> string \<Rightarrow> string \<Rightarrow> string option
     \<Rightarrow> ('e + 'r) \<times> (adapter \<times> 'n hist_args) list" where
  "getHistoricalData epochSeconds up svc calls symbol intervalArg from to providerArg =
     (let interval = interval_of intervalArg;
          provider = selected svc providerArg;
          args = hist_args_for epochSeconds (dispatch provider) symbol interval from to in
      case up calls (dispatch provider) args of
        Inr series \<Rightarrow> (Inr series, calls @ [(dispatch provider, args)])
      | Inl error \<Rightarrow>
          if provider = defaultProvider svc
          then getHistoricalData epochSeconds up svc (calls @ [(dispatch provider, args)])
                 symbol (Some interval) from to (Some (fallbackProvider provider))
          else (Inl error, calls @ [(dispatch provider, args)]))"
  by pat_completeness auto
termination
  by (relation "measure (\<lambda>(epochSeconds, up, svc, calls, symbol, intervalArg, from, to, providerArg).
        if selected svc providerArg = defaultProvider svc then 1 else 0)")
     (auto simp: selected_def fallbackProvider_def split: if_splits)

declare getHistoricalData.simps [simp del]

subsection \<open>getOptionsChain\<close>

text \<open>
  \<^verbatim>\<open>catch (error) { if (provider === this.defaultProvider && provider !== 'polygon')
       return this.getOptionsChain(symbol, 'polygon'); throw error; }\<close>
\<close>

function getOptionsChain ::
  "(string, 'e, 'r) upstream \<Rightarrow> service \<Rightarrow> (adapter \<times> string) list \<Rightarrow> string \<Rightarrow> string option
     \<Rightarrow> ('e + 'r) \<times> (adapter \<times> string) list" where
  "getOptionsChain up svc calls symbol providerArg =
     (let provider = selected svc providerArg in
      case up calls (dispatchOptions provider) symbol of
        Inr chain \<Rightarrow> (Inr chain, calls @ [(dispatchOptions provider, symbol)])
      | Inl error \<Rightarrow>
          if provider = defaultProvider svc \<and> provider \<noteq> ''polygon''
          then getOptionsChain up svc (calls @ [(dispatchOptions provider, symbol)]) symbol
                 (Some ''polygon'')
          else (Inl error, calls @ [(dispatchOptions provider, symbol)]))"
  by pat_completeness auto
termination
  by (relation "measure (\<lambda>(up, svc, calls, symbol, providerArg).
        if selected svc providerArg = defaultProvider svc \<and> selected svc providerArg \<noteq> ''polygon''
        then 1 else 0)")
     (auto simp: selected_def split: if_splits)

declare getOptionsChain.simps [simp del]

section \<open>Indicator engine\<close>

text \<open>
  The indicator functions are pure functions of an array of closing prices. JavaScript numbers
  are modelled as \<^typ>\<open>real\<close>: the arithmetic is exact, without rounding, overflow or
  \<^verbatim>\<open>NaN\<close>. \<^verbatim>\<open>null\<close> is \<open>None\<close>. The \<^verbatim>\<open>period\<close> arguments are natural numbers;
  every call site passes them (14, 12 and 26), so the default values of the parameters do
  not occur. A division by \<open>period\<close> has a meaning only for a positive period: for period
  0 the source gets \<^verbatim>\<open>NaN\<close>, which is a number and not \<^verbatim>\<open>null\<close>, and the
  properties below that speak of a value are stated for the periods in use or for a positive
  period.
\<close>

subsection \<open>calculateRSI\<close>

text \<open>
  \<^verbatim>\<open>for (let i = 1; i < prices.length; i++) changes.push(prices[i] - prices[i - 1]);\<close>
\<close>

fun priceChanges :: "real list \<Rightarrow> real list" where
  "priceChanges (previous # current # rest) = (current - previous) # priceChanges (current # rest)"
| "priceChanges [previous] = []"
| "priceChanges [] = []"

text \<open>
  The loop over the changes after the first \<^verbatim>\<open>period\<close> ones: Wilder's smoothing of both
  averages, then one more RSI value pushed on \<^verbatim>\<open>rsiValues\<close>.
\<close>

fun rsiLoop :: "nat \<Rightarrow> real \<Rightarrow> real \<Rightarrow> real list \<Rightarrow> real list \<Rightarrow> real list" where
  "rsiLoop period avgGain avgLoss rsiValues [] = rsiValues"
| "rsiLoop period avgGain avgLoss rsiValues (change # rest) =
     (let avgGain' = ((avgGain * (real period - 1)) + (if change > 0 then change else 0)) / real period;
          avgLoss' = ((avgLoss * (real period - 1)) + (if change < 0 then \<bar>change\<bar> else 0)) / real period;
          rs = avgGain' / (if avgLoss' = 0 then 0.001 else avgLoss')
      in rsiLoop period avgGain' avgLoss' (rsiValues @ [100 - (100 / (1 + rs))]) rest)"

definition calculateRSI :: "real list \<Rightarrow> nat \<Rightarrow> real option" where
  "calculateRSI prices period =
     (if length prices < period + 1 then None
      else
        let changes = priceChanges prices;
            gains = map (\<lambda>change. if change > 0 then change else 0) changes;
            losses = map (\<lambda>change. if change < 0 then \<bar>change\<bar> else 0) changes;
            avgGain = foldl (\<lambda>sum gain. sum + gain) 0 (take period gains) / real period;
            avgLoss = foldl (\<lambda>sum loss. sum + loss) 0 (take period losses) / real period;
            rs = avgGain / (if avgLoss = 0 then 0.001 else avgLoss);
            rsiValues = [100 - (100 / (1 + rs))]
        in Some (last (rsiLoop period avgGain avgLoss rsiValues (drop period changes))))"

subsection \<open>calculateEMA\<close>

text \<open>
  \<^verbatim>\<open>for (let i = period; i < prices.length; i++) ema = (prices[i] - ema) * multiplier + ema;\<close>
\<close>

fun emaLoop :: "real \<Rightarrow> real \<Rightarrow> real list \<Rightarrow> real" where
  "emaLoop multiplier ema [] = ema"
| "emaLoop multiplier ema (price # rest) = emaLoop multiplier ((price - ema) * multiplier + ema) rest"

definition calculateEMA :: "real list \<Rightarrow> nat \<Rightarrow> real option" where
  "calculateEMA prices period =
     (if length prices < period then None
      else
        let sma = foldl (\<lambda>sum price. sum + price) 0 (take period prices) / real period;
            multiplier = 2 / (real period + 1)
        in Some (emaLoop multiplier sma (drop period prices)))"

subsection \<open>calculateMACD\<close>

text \<open>
  \<^verbatim>\<open>const macdLine = ema12 - ema26;\<close> subtracts two values that may be \<^verbatim>\<open>null\<close>. The
  JavaScript subtraction converts its operands to numbers, and \<^verbatim>\<open>null\<close> converts to 0:
  the difference is always a number.
\<close>

record macd =
  macdLine :: "real option"
  signalLine :: "real option"
  histogram :: "real option"

definition toNumber :: "real option \<Rightarrow> real" where
  "toNumber v = (case v of None \<Rightarrow> 0 | Some x \<Rightarrow> x)"

definition calculateMACD :: "real list \<Rightarrow> macd" where
  "calculateMACD prices =
     (let ema12 = calculateEMA prices 12;
          ema26 = calculateEMA prices 26;
          macdLine = toNumber ema12 - toNumber ema26
      in \<lparr>macdLine = Some macdLine, signalLine = None, histogram = None\<rparr>)"

subsection \<open>calculateIndicators\<close>

text \<open>
  A bar of a price series. The timestamp is the instant, in milliseconds since the epoch, that
  the ISO-8601 string of the source denotes. The type of the five numeric fields is a
  parameter: the indicator engine reads numbers, an adapter may store what the upstream left
  out. The field \<^verbatim>\<open>open\<close> is named \<open>openPrice\<close> here.
\<close>

record 'v bar =
  timestamp :: int
  openPrice :: 'v
  high :: 'v
  low :: 'v
  close :: 'v
  volume :: 'v

record indicator_set =
  rsi :: "real option"
  emaShort :: "real option"
  emaLong :: "real option"
  macd :: macd

text \<open>The result of \<^verbatim>\<open>calculateIndicators\<close>: the empty object \<^verbatim>\<open>{}\<close> or the four fields.\<close>

datatype indicators = EmptyObject | IndicatorSet indicator_set

text \<open>
  \<^verbatim>\<open>if (!prices || prices.length === 0) return {};\<close> where \<open>None\<close> is an absent
  (\<^verbatim>\<open>null\<close> or \<^verbatim>\<open>undefined\<close>) argument.
\<close>

definition calculateIndicators :: "real bar list option \<Rightarrow> indicators" where
  "calculateIndicators prices =
     (case prices of
        None \<Rightarrow> EmptyObject
      | Some bars \<Rightarrow>
          if length bars = 0 then EmptyObject
          else
            let closePrices = map close bars;
                rsi = calculateRSI closePrices 14;
                emaShort = calculateEMA closePrices 12;
                emaLong = calculateEMA closePrices 26;
                macd = calculateMACD closePrices
            in IndicatorSet \<lparr>rsi = rsi, emaShort = emaShort, emaLong = emaLong, macd = macd\<rparr>)"

section \<open>calculateRSI in double precision\<close>

text \<open>
  The range of the RSI depends on what the arithmetic of the language does at its limits, so
  \<^verbatim>\<open>calculateRSI\<close> is modelled a second time, over the numbers of JavaScript: the finite
  doubles, the two infinities and \<^verbatim>\<open>NaN\<close>. The exact model above is kept for the
  properties that depend on the length of the series only.

  \<^item> A finite result is rounded to a double. The rounding function belongs to the runtime
    and is a parameter, \<open>rnd\<close>: the value of the double nearest to a real, with an unbounded
    exponent. What the properties below need of it is stated with them: it is monotone, it
    leaves 0, 1 and 100 as they are, and the literal \<^verbatim>\<open>0.001\<close> is a positive double.
  \<^item> A rounded result beyond the largest double (\<^verbatim>\<open>Number.MAX_VALUE\<close>) is an infinity.
  \<^item> The operations on infinities and \<^verbatim>\<open>NaN\<close> are those of IEEE 754: among others
    \<^verbatim>\<open>Infinity - Infinity\<close>, \<^verbatim>\<open>Infinity / Infinity\<close> and \<^verbatim>\<open>0 * Infinity\<close> are
    \<^verbatim>\<open>NaN\<close>, and every comparison with \<^verbatim>\<open>NaN\<close> is false.
  \<^item> The sign of a zero is not modelled: \<open>Finite 0\<close> stands for both zeros, and a division
    of a non-zero number by zero takes the sign of the dividend.
\<close>

datatype double = Finite real | Infinity | NegInfinity | NaN

definition maxValue :: real where
  "maxValue = (2 ^ 53 - 1) * 2 ^ 971"

definition rounded :: "(real \<Rightarrow> real) \<Rightarrow> real \<Rightarrow> double" where
  "rounded rnd x =
     (if rnd x > maxValue then Infinity
      else if rnd x < - maxValue then NegInfinity
      else Finite (rnd x))"

text \<open>The infinity with the sign of a real; \<^verbatim>\<open>NaN\<close> when there is no sign.\<close>

definition infinityOf :: "real \<Rightarrow> double" where
  "infinityOf s = (if s > 0 then Infinity else if s < 0 then NegInfinity else NaN)"

fun jsNeg :: "double \<Rightarrow> double" where
  "jsNeg (Finite x) = Finite (- x)"
| "jsNeg Infinity = NegInfinity"
| "jsNeg NegInfinity = Infinity"
| "jsNeg NaN = NaN"

fun jsAbs :: "double \<Rightarrow> double" where
  "jsAbs (Finite x) = Finite \<bar>x\<bar>"
| "jsAbs Infinity = Infinity"
| "jsAbs NegInfinity = Infinity"
| "jsAbs NaN = NaN"

fun jsAdd :: "(real \<Rightarrow> real) \<Rightarrow> double \<Rightarrow> double \<Rightarrow> double" where
  "jsAdd rnd (Finite x) (Finite y) = rounded rnd (x + y)"
| "jsAdd rnd (Finite x) Infinity = Infinity"
| "jsAdd rnd (Finite x) NegInfinity = NegInfinity"
| "jsAdd rnd Infinity (Finite y) = Infinity"
| "jsAdd rnd Infinity Infinity = Infinity"
| "jsAdd rnd Infinity NegInfinity = NaN"
| "jsAdd rnd NegInfinity (Finite y) = NegInfinity"
| "jsAdd rnd NegInfinity Infinity = NaN"
| "jsAdd rnd NegInfinity NegInfinity = NegInfinity"
| "jsAdd rnd NaN b = NaN"
| "jsAdd rnd a NaN = NaN"

definition jsSub :: "(real \<Rightarrow> real) \<Rightarrow> double \<Rightarrow> double \<Rightarrow> double" where
  "jsSub rnd a b = jsAdd rnd a (jsNeg b)"

fun jsMul :: "(real \<Rightarrow> real) \<Rightarrow> double \<Rightarrow> double \<Rightarrow> double" where
  "jsMul rnd (Finite x) (Finite y) = rounded rnd (x * y)"
| "jsMul rnd (Finite x) Infinity = infinityOf x"
| "jsMul rnd (Finite x) NegInfinity = infinityOf (- x)"
| "jsMul rnd Infinity (Finite y) = infinityOf y"
| "jsMul rnd Infinity Infinity = Infinity"
| "jsMul rnd Infinity NegInfinity = NegInfinity"
| "jsMul rnd NegInfinity (Finite y) = infinityOf (- y)"
| "jsMul rnd NegInfinity Infinity = NegInfinity"
| "jsMul rnd NegInfinity NegInfinity = Infinity"
| "jsMul rnd NaN b = NaN"
| "jsMul rnd a NaN = NaN"

fun jsDiv :: "(real \<Rightarrow> real) \<Rightarrow> double \<Rightarrow> double \<Rightarrow> double" where
  "jsDiv rnd (Finite x) (Finite y) = (if y = 0 then infinityOf x else rounded rnd (x / y))"
| "jsDiv rnd (Finite x) Infinity = Finite 0"
| "jsDiv rnd (Finite x) NegInfinity = Finite 0"
| "jsDiv rnd Infinity (Finite y) = (if y \<ge> 0 then Infinity else NegInfinity)"
| "jsDiv rnd Infinity Infinity = NaN"
| "jsDiv rnd Infinity NegInfinity = NaN"
| "jsDiv rnd NegInfinity (Finite y) = (if y \<ge> 0 then NegInfinity else Infinity)"
| "jsDiv rnd NegInfinity Infinity = NaN"
| "jsDiv rnd NegInfinity NegInfinity = NaN"
| "jsDiv rnd NaN b = NaN"
| "jsDiv rnd a NaN = NaN"

text \<open>The comparisons \<^verbatim>\<open>x > 0\<close>, \<^verbatim>\<open>x < 0\<close> and \<^verbatim>\<open>x === 0\<close>.\<close>

fun greaterThanZero :: "double \<Rightarrow> bool" where
  "greaterThanZero (Finite x) = (x > 0)"
| "greaterThanZero Infinity = True"
| "greaterThanZero NegInfinity = False"
| "greaterThanZero NaN = False"

fun lessThanZero :: "double \<Rightarrow> bool" where
  "lessThanZero (Finite x) = (x < 0)"
| "lessThanZero Infinity = False"
| "lessThanZero NegInfinity = True"
| "lessThanZero NaN = False"

fun equalsZero :: "double \<Rightarrow> bool" where
  "equalsZero (Finite x) = (x = 0)"
| "equalsZero Infinity = False"
| "equalsZero NegInfinity = False"
| "equalsZero NaN = False"

text \<open>
  \<^verbatim>\<open>for (let i = 1; i < prices.length; i++) changes.push(prices[i] - prices[i - 1]);\<close>
\<close>

fun priceChanges_double :: "(real \<Rightarrow> real) \<Rightarrow> double list \<Rightarrow> double list" where
  "priceChanges_double rnd (previous # current # rest) =
     jsSub rnd current previous # priceChanges_double rnd (current # rest)"
| "priceChanges_double rnd [previous] = []"
| "priceChanges_double rnd [] = []"

text \<open>
  \<^verbatim>\<open>100 - (100 / (1 + rs))\<close> with \<^verbatim>\<open>rs = avgGain / (avgLoss === 0 ? 0.001 : avgLoss)\<close>, the
  expression evaluated once before the loop and once in every round of it. The literal
  \<^verbatim>\<open>0.001\<close> is the double nearest to one thousandth.
\<close>

definition rsiValue_double :: "(real \<Rightarrow> real) \<Rightarrow> double \<Rightarrow> double \<Rightarrow> double" where
  "rsiValue_double rnd avgGain avgLoss =
     (let rs = jsDiv rnd avgGain (if equalsZero avgLoss then rounded rnd (1 / 1000) else avgLoss)
      in jsSub rnd (Finite 100) (jsDiv rnd (Finite 100) (jsAdd rnd (Finite 1) rs)))"

text \<open>
  The loop over the changes after the first \<^verbatim>\<open>period\<close> ones. It returns the three variables
  it assigns: \<^verbatim>\<open>avgGain\<close>, \<^verbatim>\<open>avgLoss\<close> and \<^verbatim>\<open>rsiValues\<close>.
\<close>

fun rsiLoop_double ::
  "(real \<Rightarrow> real) \<Rightarrow> nat \<Rightarrow> double \<Rightarrow> double \<Rightarrow> double list \<Rightarrow> double list
     \<Rightarrow> double \<times> double \<times> double list" where
  "rsiLoop_double rnd period avgGain avgLoss rsiValues [] = (avgGain, avgLoss, rsiValues)"
| "rsiLoop_double rnd period avgGain avgLoss rsiValues (change # rest) =
     (let avgGain' =
            jsDiv rnd
              (jsAdd rnd
                 (jsMul rnd avgGain (jsSub rnd (Finite (real period)) (Finite 1)))
                 (if greaterThanZero change then change else Finite 0))
              (Finite (real period));
          avgLoss' =
            jsDiv rnd
              (jsAdd rnd
                 (jsMul rnd avgLoss (jsSub rnd (Finite (real period)) (Finite 1)))
                 (if lessThanZero change then jsAbs change else Finite 0))
              (Finite (real period))
      in rsiLoop_double rnd period avgGain' avgLoss'
           (rsiValues @ [rsiValue_double rnd avgGain' avgLoss']) rest)"

text \<open>
  The body of \<^verbatim>\<open>calculateRSI\<close> after the length guard, up to the \<^verbatim>\<open>return\<close>: the values
  of \<^verbatim>\<open>avgGain\<close>, \<^verbatim>\<open>avgLoss\<close> and \<^verbatim>\<open>rsiValues\<close> when the function returns.
\<close>

definition rsiRun_double ::
  "(real \<Rightarrow> real) \<Rightarrow> double list \<Rightarrow> nat \<Rightarrow> double \<times> double \<times> double list" where
  "rsiRun_double rnd prices period =
     (let changes = priceChanges_double rnd prices;
          gains = map (\<lambda>change. if greaterThanZero change then change else Finite 0) changes;
          losses = map (\<lambda>change. if lessThanZero change then jsAbs change else Finite 0) changes;
          avgGain = jsDiv rnd (foldl (\<lambda>sum gain. jsAdd rnd sum gain) (Finite 0) (take period gains))
                      (Finite (real period));
          avgLoss = jsDiv rnd (foldl (\<lambda>sum loss. jsAdd rnd sum loss) (Finite 0) (take period losses))
                      (Finite (real period));
          rsiValues = [rsiValue_double rnd avgGain avgLoss]
      in rsiLoop_double rnd period avgGain avgLoss rsiValues (drop period changes))"

definition calculateRSI_double :: "(real \<Rightarrow> real) \<Rightarrow> double list \<Rightarrow> nat \<Rightarrow> double option" where
  "calculateRSI_double rnd prices period =
     (if length prices < period + 1 then None
      else Some (last (snd (snd (rsiRun_double rnd prices period)))))"

text \<open>The doubles from zero upwards, \<^verbatim>\<open>Infinity\<close> included.\<close>

fun nonNegative :: "double \<Rightarrow> bool" where
  "nonNegative (Finite x) = (0 \<le> x)"
| "nonNegative Infinity = True"
| "nonNegative NegInfinity = False"
| "nonNegative NaN = False"

section \<open>Historical-data adapters\<close>

text \<open>
  Each adapter awaits one HTTP request and reshapes the payload into a price series. The
  adapters are modelled from the response on: the argument \<open>response\<close> is the outcome of
  the awaited request, \<open>Inl\<close> when it rejects (network error, timeout, HTTP error status) and
  \<open>Inr\<close> with the payload otherwise; a rejection is rethrown to the router. The request
  parameters (resolution, function name, multiplier and timespan) only shape the request and
  are not modelled.
\<close>

record 'v series =
  symbol :: string
  interval :: string
  data :: "'v bar list"
  source :: string

text \<open>
  \<^verbatim>\<open>new Date(ms).toISOString()\<close> throws a \<^verbatim>\<open>RangeError\<close> when the time value is outside
  the range of a JavaScript date, 8.64e15 milliseconds on either side of the epoch. Inside
  the range the string denotes the instant \<open>ms\<close>.
\<close>

definition toISOString :: "int \<Rightarrow> error + int" where
  "toISOString ms =
     (if \<bar>ms\<bar> \<le> 8640000000000000 then Inr ms else Inl (Error ''RangeError: Invalid time value''))"

text \<open>An array read \<^verbatim>\<open>xs[i]\<close>: \<^verbatim>\<open>undefined\<close>, here \<open>None\<close>, past the end.\<close>

definition at_index :: "'a list \<Rightarrow> nat \<Rightarrow> 'a option" where
  "at_index xs i = (if i < length xs then Some (xs ! i) else None)"

subsection \<open>Finnhub\<close>

text \<open>
  The candle payload holds six parallel arrays: \<^verbatim>\<open>t\<close> (epoch seconds), \<^verbatim>\<open>o\<close>, \<^verbatim>\<open>h\<close>,
  \<^verbatim>\<open>l\<close>, \<^verbatim>\<open>c\<close> and \<^verbatim>\<open>v\<close>. The loop runs over the indices of \<^verbatim>\<open>t\<close> and pushes one bar
  per index, in that order, on the array \<^verbatim>\<open>data\<close> (here \<open>rows\<close>). There is no sorting
  step.
\<close>

record candles =
  candle_t :: "int list"
  candle_o :: "real list"
  candle_h :: "real list"
  candle_l :: "real list"
  candle_c :: "real list"
  candle_v :: "real list"

fun finnhubLoop :: "candles \<Rightarrow> nat list \<Rightarrow> real option bar list \<Rightarrow> error + real option bar list" where
  "finnhubLoop response [] rows = Inr rows"
| "finnhubLoop response (i # indices) rows =
     (case toISOString (candle_t response ! i * 1000) of
        Inl e \<Rightarrow> Inl e
      | Inr ts \<Rightarrow>
          finnhubLoop response indices
            (rows @ [\<lparr>timestamp = ts,
                      openPrice = at_index (candle_o response) i,
                      high = at_index (candle_h response) i,
                      low = at_index (candle_l response) i,
                      close = at_index (candle_c response) i,
                      volume = at_index (candle_v response) i\<rparr>]))"

definition getHistoricalDataFinnhub ::
  "error + candles \<Rightarrow> string \<Rightarrow> string \<Rightarrow> error + real option series" where
  "getHistoricalDataFinnhub response symb intv =
     (case response of
        Inl e \<Rightarrow> Inl e
      | Inr payload \<Rightarrow>
          (case finnhubLoop payload [0..<length (candle_t payload)] [] of
             Inl e \<Rightarrow> Inl e
           | Inr bars \<Rightarrow>
               Inr \<lparr>symbol = symb, interval = intv, data = bars, source = ''finnhub''\<rparr>))"

subsection \<open>Alpha Vantage\<close>

text \<open>
  The payload is an object; the time series is the object stored under a key that depends on
  the interval, and maps date strings to entries of five numeric strings. An object is
  modelled as the list of its properties in enumeration order. When the key is missing the
  \<^verbatim>\<open>for ... in\<close> loop over \<^verbatim>\<open>undefined\<close> runs zero times.

  \<open>parseDate\<close> stands for \<^verbatim>\<open>new Date(string)\<close>: \<open>None\<close> is an invalid date, whose
  comparisons are all false. \<open>parseFloat\<close> and \<open>parseInt\<close> are the functions of the runtime.
\<close>

record av_entry =
  av_open :: string
  av_high :: string
  av_low :: string
  av_close :: string
  av_volume :: string

text \<open>\<^verbatim>\<open>string.replace(c, by)\<close> for a pattern of one character: the first occurrence.\<close>

fun replaceFirst :: "char \<Rightarrow> string \<Rightarrow> string \<Rightarrow> string" where
  "replaceFirst c by [] = []"
| "replaceFirst c by (x # xs) = (if x = c then by @ xs else x # replaceFirst c by xs)"

definition dataKey :: "string \<Rightarrow> string" where
  "dataKey intv =
     (if intv = ''1m'' \<or> intv = ''5m'' \<or> intv = ''15m'' \<or> intv = ''30m''
      then ''Time Series ('' @ replaceFirst CHR ''m'' '' min'' intv @ '')''
      else if intv = ''1h'' then ''Time Series (60 min)''
      else if intv = ''1w'' then ''Weekly Time Series''
      else if intv = ''1M'' then ''Monthly Time Series''
      else ''Time Series (Daily)'')"

text \<open>
  \<^verbatim>\<open>currentDate >= fromDate && currentDate <= toDate\<close> for a valid \<^verbatim>\<open>currentDate\<close>; it
  is false when either bound is an invalid date.
\<close>

definition inWindow :: "int \<Rightarrow> int option \<Rightarrow> int option \<Rightarrow> bool" where
  "inWindow currentDate fromDate toDate =
     (case (fromDate, toDate) of
        (Some f, Some t) \<Rightarrow> currentDate \<ge> f \<and> currentDate \<le> t
      | _ \<Rightarrow> False)"

text \<open>
  The loop over the properties of the time series. An invalid \<^verbatim>\<open>currentDate\<close> fails both
  comparisons and pushes nothing; a valid one inside the window is within the range of
  \<^verbatim>\<open>toISOString\<close>.
\<close>

fun alphaVantageLoop ::
  "(string \<Rightarrow> int option) \<Rightarrow> (string \<Rightarrow> 'v) \<Rightarrow> (string \<Rightarrow> 'v) \<Rightarrow> int option \<Rightarrow> int option
     \<Rightarrow> (string \<times> av_entry) list \<Rightarrow> 'v bar list \<Rightarrow> 'v bar list" where
  "alphaVantageLoop parseDate parseFloat parseInt fromDate toDate [] rows = rows"
| "alphaVantageLoop parseDate parseFloat parseInt fromDate toDate ((date, entry) # properties) rows =
     alphaVantageLoop parseDate parseFloat parseInt fromDate toDate properties
       (case parseDate date of
          None \<Rightarrow> rows
        | Some currentDate \<Rightarrow>
            if inWindow currentDate fromDate toDate
            then rows @ [\<lparr>timestamp = currentDate,
                           openPrice = parseFloat (av_open entry),
                           high = parseFloat (av_high entry),
                           low = parseFloat (av_low entry),
                           close = parseFloat (av_close entry),
                           volume = parseInt (av_volume entry)\<rparr>]
            else rows)"

text \<open>
  \<^verbatim>\<open>data.sort((a, b) => new Date(a.timestamp) - new Date(b.timestamp))\<close>: the sort of the
  language is stable, and the comparison is by instant, so the result is the stable sort of
  the bars by timestamp.
\<close>

definition getHistoricalDataAlphaVantage ::
  "(string \<Rightarrow> int option) \<Rightarrow> (string \<Rightarrow> 'v) \<Rightarrow> (string \<Rightarrow> 'v)
     \<Rightarrow> error + (string \<times> (string \<times> av_entry) list) list
     \<Rightarrow> string \<Rightarrow> string \<Rightarrow> string \<Rightarrow> string \<Rightarrow> error + 'v series" where
  "getHistoricalDataAlphaVantage parseDate parseFloat parseInt response symb intv from to =
     (case response of
        Inl e \<Rightarrow> Inl e
      | Inr payload \<Rightarrow>
          let timeSeriesData = (case map_of payload (dataKey intv) of None \<Rightarrow> [] | Some ts \<Rightarrow> ts);
              fromDate = parseDate from;
              toDate = parseDate to;
              bars = alphaVantageLoop parseDate parseFloat parseInt fromDate toDate timeSeriesData []
          in Inr \<lparr>symbol = symb, interval = intv, data = sort_key timestamp bars,
                  source = ''alphavantage''\<rparr>)"

subsection \<open>Polygon\<close>

text \<open>
  \<^verbatim>\<open>response.data.results.map(item => ...)\<close>: one bar per aggregate, in the order of the
  payload; \<^verbatim>\<open>t\<close> is in epoch milliseconds. There is no sorting step.
\<close>

record 'v aggregate =
  agg_t :: int
  agg_o :: 'v
  agg_h :: 'v
  agg_l :: 'v
  agg_c :: 'v
  agg_v :: 'v

fun polygonMap :: "'v aggregate list \<Rightarrow> error + 'v bar list" where
  "polygonMap [] = Inr []"
| "polygonMap (item # items) =
     (case toISOString (agg_t item) of
        Inl e \<Rightarrow> Inl e
      | Inr ts \<Rightarrow>
          (case polygonMap items of
             Inl e \<Rightarrow> Inl e
           | Inr bars \<Rightarrow>
               Inr (\<lparr>timestamp = ts, openPrice = agg_o item, high = agg_h item, low = agg_l item,
                      close = agg_c item, volume = agg_v item\<rparr> # bars)))"

definition getHistoricalDataPolygon ::
  "error + 'v aggregate list \<Rightarrow> string \<Rightarrow> string \<Rightarrow> error + 'v series" where
  "getHistoricalDataPolygon response symb intv =
     (case response of
        Inl e \<Rightarrow> Inl e
      | Inr results \<Rightarrow>
          (case polygonMap results of
             Inl e \<Rightarrow> Inl e
           | Inr bars \<Rightarrow>
               Inr \<lparr>symbol = symb, interval = intv, data = bars, source = ''polygon''\<rparr>))"

section \<open>Concrete environments\<close>

text \<open>Upstream environments and a date conversion used to run the router on concrete requests.\<close>

definition finnhub_down :: "(string, string, string) upstream" where
  "finnhub_down calls a symb =
     (case a of Finnhub \<Rightarrow> Inl ''finnhub: timeout''
      | AlphaVantage \<Rightarrow> Inr ''answer of alphavantage''
      | Polygon \<Rightarrow> Inr ''answer of polygon'')"

definition all_down :: "(string, string, string) upstream" where
  "all_down calls a symb =
     (case a of Finnhub \<Rightarrow> Inl ''finnhub: timeout''
      | AlphaVantage \<Rightarrow> Inl ''alphavantage: timeout''
      | Polygon \<Rightarrow> Inl ''polygon: timeout'')"

definition hist_finnhub_down :: "(int hist_args, string, string) upstream" where
  "hist_finnhub_down calls a args =
     (case a of Finnhub \<Rightarrow> Inl ''finnhub: timeout''
      | AlphaVantage \<Rightarrow> Inr ''series of alphavantage''
      | Polygon \<Rightarrow> Inr ''series of polygon'')"

definition hist_all_down :: "(int hist_args, string, string) upstream" where
  "hist_all_down calls a args =
     (case a of Finnhub \<Rightarrow> Inl ''finnhub: timeout''
      | AlphaVantage \<Rightarrow> Inl ''alphavantage: timeout''
      | Polygon \<Rightarrow> Inl ''polygon: timeout'')"

definition day_number :: "string \<Rightarrow> int" where
  "day_number s = (if s = ''2023-01-01'' then 1672531200 else if s = ''2023-12-31'' then 1703980800 else 0)"

definition polygon_only :: "(string, string, string) upstream" where
  "polygon_only calls a symb =
     (case a of Finnhub \<Rightarrow> Inl ''finnhub: timeout''
      | AlphaVantage \<Rightarrow> Inl ''alphavantage: timeout''
      | Polygon \<Rightarrow> Inr ''answer of polygon'')"

definition finnhub_up :: "(string, string, string) upstream" where
  "finnhub_up calls a symb =
     (case a of Finnhub \<Rightarrow> Inr ''answer of finnhub''
      | AlphaVantage \<Rightarrow> Inl ''alphavantage: timeout''
      | Polygon \<Rightarrow> Inr ''answer of polygon'')"

text \<open>
  A Finnhub candle payload of two daily candles whose timestamps arrive newest first
  (2023-11-16 and 2023-11-15, 00:00 UTC).
\<close>

definition candles_newest_first :: candles where
  "candles_newest_first =
     \<lparr>candle_t = [1700092800, 1700006400],
      candle_o = [189, 187],
      candle_h = [191, 189],
      candle_l = [188, 187],
      candle_c = [190, 188],
      candle_v = [54000000, 53000000]\<rparr>"

text \<open>A series of fifty daily bars.\<close>

definition fifty_bars :: "real bar list" where
  "fifty_bars =
     map (\<lambda>n. \<lparr>timestamp = 86400000 * int n, openPrice = 100, high = 107, low = 99,
                close = 100 + real (n mod 7), volume = 1000\<rparr>) [0..<50]"

text \<open>
  Rounding that changes nothing, for computations whose results are doubles already, and
  fifteen prices that alternate between \<open>2 ^ 1023\<close> and \<open>- (2 ^ 1023)\<close>, both of them
  finite doubles.
\<close>

definition exact :: "real \<Rightarrow> real" where
  "exact x = x"

definition alternating_prices :: "double list" where
  "alternating_prices =
     [Finite (2 ^ 1023), Finite (- (2 ^ 1023)), Finite (2 ^ 1023), Finite (- (2 ^ 1023)),
      Finite (2 ^ 1023), Finite (- (2 ^ 1023)), Finite (2 ^ 1023), Finite (- (2 ^ 1023)),
      Finite (2 ^ 1023), Finite (- (2 ^ 1023)), Finite (2 ^ 1023), Finite (- (2 ^ 1023)),
      Finite (2 ^ 1023), Finite (- (2 ^ 1023)), Finite (2 ^ 1023)]"

definition rising_prices :: "double list" where
  "rising_prices =
     [Finite 1, Finite 2, Finite 3, Finite 4, Finite 5, Finite 6, Finite 7, Finite 8,
      Finite 9, Finite 10, Finite 11, Finite 12, Finite 13, Finite 14, Finite 15]"

section \<open>Properties of the router\<close>

subsection \<open>Requests for a provider other than the default\<close>

text \<open>
  When the provider is given and differs from the default, the handler rethrows: the router
  makes the one call the switch selects and passes its outcome on.
\<close>

lemma fallbackProvider_differs: "fallbackProvider p \<noteq> p"
  by (simp add: fallbackProvider_def)

lemma getQuote_not_default:
  "p \<noteq> defaultProvider svc \<Longrightarrow>
   getQuote up svc calls symb (Some p) = (up calls (dispatch p) symb, calls @ [(dispatch p, symb)])"
  by (subst getQuote.simps) (simp add: selected_def split: sum.splits)

lemma getCompanyProfile_not_default:
  "p \<noteq> defaultProvider svc \<Longrightarrow>
   getCompanyProfile up svc calls symb (Some p) =
     (up calls (dispatch p) symb, calls @ [(dispatch p, symb)])"
  by (subst getCompanyProfile.simps) (simp add: selected_def split: sum.splits)

lemma getHistoricalData_not_default:
  "p \<noteq> defaultProvider svc \<Longrightarrow>
   getHistoricalData es up svc calls symb (Some i) from to (Some p) =
     (up calls (dispatch p) (hist_args_for es (dispatch p) symb i from to),
      calls @ [(dispatch p, hist_args_for es (dispatch p) symb i from to)])"
  by (subst getHistoricalData.simps) (simp add: selected_def Let_def interval_of_def split: sum.splits)

lemma getOptionsChain_no_retry:
  "p \<noteq> defaultProvider svc \<or> p = ''polygon'' \<Longrightarrow>
   getOptionsChain up svc calls symb (Some p) =
     (up calls (dispatchOptions p) symb, calls @ [(dispatchOptions p, symb)])"
  by (subst getOptionsChain.simps) (auto simp add: selected_def Let_def split: sum.splits)

subsection \<open>Fallback after a failure of the default provider\<close>

text \<open>
  Claim C1. For a quote, profile or historical request whose selected provider is the default
  provider and whose adapter call fails, the router makes exactly one further call, to the
  adapter of the alternate provider (\<^verbatim>\<open>'alphavantage'\<close> when the primary is
  \<^verbatim>\<open>'finnhub'\<close>, else \<^verbatim>\<open>'finnhub'\<close>), and returns whatever that call answers, a
  value or an error. The call log grows by exactly the primary and the fallback call, so
  there is no second retry.
\<close>

theorem default_failure_one_fallback:
  assumes "selected svc providerArg = defaultProvider svc"
  shows "(upq calls (dispatch (defaultProvider svc)) symb = Inl e \<longrightarrow>
            getQuote upq svc calls symb providerArg =
              (upq (calls @ [(dispatch (defaultProvider svc), symb)])
                   (dispatch (fallbackProvider (defaultProvider svc))) symb,
               calls @ [(dispatch (defaultProvider svc), symb),
                        (dispatch (fallbackProvider (defaultProvider svc)), symb)]))
       \<and> (upp pcalls (dispatch (defaultProvider svc)) symb = Inl e \<longrightarrow>
            getCompanyProfile upp svc pcalls symb providerArg =
              (upp (pcalls @ [(dispatch (defaultProvider svc), symb)])
                   (dispatch (fallbackProvider (defaultProvider svc))) symb,
               pcalls @ [(dispatch (defaultProvider svc), symb),
                         (dispatch (fallbackProvider (defaultProvider svc)), symb)]))
       \<and> (uph hcalls (dispatch (defaultProvider svc))
              (hist_args_for es (dispatch (defaultProvider svc)) symb (interval_of intervalArg) from to) = Inl e \<longrightarrow>
            getHistoricalData es uph svc hcalls symb intervalArg from to providerArg =
              (uph (hcalls @ [(dispatch (defaultProvider svc),
                               hist_args_for es (dispatch (defaultProvider svc)) symb (interval_of intervalArg) from to)])
                   (dispatch (fallbackProvider (defaultProvider svc)))
                   (hist_args_for es (dispatch (fallbackProvider (defaultProvider svc))) symb (interval_of intervalArg) from to),
               hcalls @ [(dispatch (defaultProvider svc),
                          hist_args_for es (dispatch (defaultProvider svc)) symb (interval_of intervalArg) from to),
                         (dispatch (fallbackProvider (defaultProvider svc)),
                          hist_args_for es (dispatch (fallbackProvider (defaultProvider svc))) symb (interval_of intervalArg) from to)]))"
proof (intro conjI impI)
  let ?d = "defaultProvider svc"
  have alt: "fallbackProvider ?d \<noteq> ?d"
    by (rule fallbackProvider_differs)
  {
    assume fail: "upq calls (dispatch ?d) symb = Inl e"
    show "getQuote upq svc calls symb providerArg =
            (upq (calls @ [(dispatch ?d, symb)]) (dispatch (fallbackProvider ?d)) symb,
             calls @ [(dispatch ?d, symb), (dispatch (fallbackProvider ?d), symb)])"
      by (subst getQuote.simps) (simp add: assms fail Let_def getQuote_not_default [OF alt])
  }
  {
    assume fail: "upp pcalls (dispatch ?d) symb = Inl e"
    show "getCompanyProfile upp svc pcalls symb providerArg =
            (upp (pcalls @ [(dispatch ?d, symb)]) (dispatch (fallbackProvider ?d)) symb,
             pcalls @ [(dispatch ?d, symb), (dispatch (fallbackProvider ?d), symb)])"
      by (subst getCompanyProfile.simps) (simp add: assms fail Let_def getCompanyProfile_not_default [OF alt])
  }
  {
    let ?i = "interval_of intervalArg"
    let ?a1 = "hist_args_for es (dispatch ?d) symb ?i from to"
    let ?a2 = "hist_args_for es (dispatch (fallbackProvider ?d)) symb ?i from to"
    assume fail: "uph hcalls (dispatch ?d) ?a1 = Inl e"
    show "getHistoricalData es uph svc hcalls symb intervalArg from to providerArg =
            (uph (hcalls @ [(dispatch ?d, ?a1)]) (dispatch (fallbackProvider ?d)) ?a2,
             hcalls @ [(dispatch ?d, ?a1), (dispatch (fallbackProvider ?d), ?a2)])"
      using fail
      by (subst getHistoricalData.simps)
         (simp add: assms Let_def getHistoricalData_not_default [OF alt] interval_of_def [of "Some _"])
  }
qed

text \<open>
  The theorem at a request without a provider on a fresh service whose Finnhub upstream times
  out: Alpha Vantage serves the quote, the profile and the series, after two calls each.
\<close>

theorem default_failure_one_fallback_witness:
  "selected constructor None = defaultProvider constructor
   \<and> finnhub_down [] (dispatch (defaultProvider constructor)) ''AAPL'' = Inl ''finnhub: timeout''
   \<and> getQuote finnhub_down constructor [] ''AAPL'' None =
       (Inr ''answer of alphavantage'', [(Finnhub, ''AAPL''), (AlphaVantage, ''AAPL'')])
   \<and> getCompanyProfile finnhub_down constructor [] ''AAPL'' None =
       (Inr ''answer of alphavantage'', [(Finnhub, ''AAPL''), (AlphaVantage, ''AAPL'')])
   \<and> hist_finnhub_down [] (dispatch (defaultProvider constructor))
        (hist_args_for day_number (dispatch (defaultProvider constructor)) ''AAPL'' (interval_of None)
           ''2023-01-01'' ''2023-12-31'') = Inl ''finnhub: timeout''
   \<and> getHistoricalData day_number hist_finnhub_down constructor [] ''AAPL'' None
        ''2023-01-01'' ''2023-12-31'' None =
       (Inr ''series of alphavantage'',
        [(Finnhub, Stamps ''AAPL'' ''1d'' 1672531200 1703980800),
         (AlphaVantage, Dates ''AAPL'' ''1d'' ''2023-01-01'' ''2023-12-31'')])"
proof -
  have sel: "selected constructor None = defaultProvider constructor"
    by (simp add: selected_def)
  have q: "finnhub_down [] (dispatch (defaultProvider constructor)) ''AAPL'' = Inl ''finnhub: timeout''"
    by (simp add: finnhub_down_def dispatch_def constructor_def)
  have h: "hist_finnhub_down [] (dispatch (defaultProvider constructor))
        (hist_args_for day_number (dispatch (defaultProvider constructor)) ''AAPL'' (interval_of None)
           ''2023-01-01'' ''2023-12-31'') = Inl ''finnhub: timeout''"
    by (simp add: hist_finnhub_down_def dispatch_def constructor_def)
  from default_failure_one_fallback [OF sel, of finnhub_down "[]" "''AAPL''" "''finnhub: timeout''"
      finnhub_down "[]" hist_finnhub_down "[]" day_number None "''2023-01-01''" "''2023-12-31''"] q h
  show ?thesis
    by (simp add: selected_def finnhub_down_def hist_finnhub_down_def dispatch_def constructor_def
        fallbackProvider_def hist_args_for_def interval_of_def day_number_def)
qed

subsection \<open>Requests that name their provider\<close>

text \<open>
  Claim C2, as stated, fails when the provider named by the caller is the default provider:
  the handler compares \<^verbatim>\<open>provider === this.defaultProvider\<close> and cannot tell a named
  default from an omitted one. A quote request that names \<^verbatim>\<open>'finnhub'\<close> on a fresh
  service falls back to Alpha Vantage and returns its answer instead of the Finnhub error.
\<close>

theorem pinned_default_falls_back:
  "getQuote finnhub_down constructor [] ''AAPL'' (Some ''finnhub'') =
     (Inr ''answer of alphavantage'', [(Finnhub, ''AAPL''), (AlphaVantage, ''AAPL'')])"
  by (simp add: getQuote.simps [of _ _ _ _ "Some ''finnhub''"] getQuote_not_default
      selected_def constructor_def finnhub_down_def dispatch_def fallbackProvider_def)

text \<open>
  Claim C2, amended. For every request (quote, profile, historical, options chain) that names
  a provider different from the default provider and whose adapter call fails, the router
  makes no further call and the error of that one call is what the caller gets.
\<close>

theorem pinned_other_failure_propagates:
  assumes "p \<noteq> defaultProvider svc"
  shows "(upq calls (dispatch p) symb = Inl e \<longrightarrow>
            getQuote upq svc calls symb (Some p) = (Inl e, calls @ [(dispatch p, symb)]))
       \<and> (upp pcalls (dispatch p) symb = Inl e \<longrightarrow>
            getCompanyProfile upp svc pcalls symb (Some p) = (Inl e, pcalls @ [(dispatch p, symb)]))
       \<and> (uph hcalls (dispatch p)
              (hist_args_for es (dispatch p) symb (interval_of intervalArg) from to) = Inl e \<longrightarrow>
            getHistoricalData es uph svc hcalls symb intervalArg from to (Some p) =
              (Inl e, hcalls @ [(dispatch p,
                 hist_args_for es (dispatch p) symb (interval_of intervalArg) from to)]))
       \<and> (upo ocalls (dispatchOptions p) symb = Inl e \<longrightarrow>
            getOptionsChain upo svc ocalls symb (Some p) =
              (Inl e, ocalls @ [(dispatchOptions p, symb)]))"
proof (intro conjI impI)
  show "getQuote upq svc calls symb (Some p) = (Inl e, calls @ [(dispatch p, symb)])"
    if "upq calls (dispatch p) symb = Inl e"
    using that by (simp add: getQuote_not_default [OF assms])
  show "getCompanyProfile upp svc pcalls symb (Some p) = (Inl e, pcalls @ [(dispatch p, symb)])"
    if "upp pcalls (dispatch p) symb = Inl e"
    using that by (simp add: getCompanyProfile_not_default [OF assms])
  show "getHistoricalData es uph svc hcalls symb intervalArg from to (Some p) =
          (Inl e, hcalls @ [(dispatch p,
             hist_args_for es (dispatch p) symb (interval_of intervalArg) from to)])"
    if "uph hcalls (dispatch p)
          (hist_args_for es (dispatch p) symb (interval_of intervalArg) from to) = Inl e"
    using that assms
    by (subst getHistoricalData.simps) (simp add: selected_def Let_def)
  show "getOptionsChain upo svc ocalls symb (Some p) = (Inl e, ocalls @ [(dispatchOptions p, symb)])"
    if "upo ocalls (dispatchOptions p) symb = Inl e"
    using that assms by (simp add: getOptionsChain_no_retry)
qed

text \<open>
  The theorem at requests that name \<^verbatim>\<open>'polygon'\<close> on a fresh service with every upstream
  down: one call to Polygon, and its error.
\<close>

theorem pinned_other_failure_propagates_witness:
  "''polygon'' \<noteq> defaultProvider constructor
   \<and> all_down [] (dispatch ''polygon'') ''AAPL'' = Inl ''polygon: timeout''
   \<and> getQuote all_down constructor [] ''AAPL'' (Some ''polygon'') =
       (Inl ''polygon: timeout'', [(Polygon, ''AAPL'')])
   \<and> getCompanyProfile all_down constructor [] ''AAPL'' (Some ''polygon'') =
       (Inl ''polygon: timeout'', [(Polygon, ''AAPL'')])
   \<and> getOptionsChain all_down constructor [] ''AAPL'' (Some ''polygon'') =
       (Inl ''polygon: timeout'', [(Polygon, ''AAPL'')])
   \<and> hist_all_down [] (dispatch ''polygon'')
        (hist_args_for day_number (dispatch ''polygon'') ''AAPL'' (interval_of (Some ''1h''))
           ''2023-01-01'' ''2023-12-31'') = Inl ''polygon: timeout''
   \<and> getHistoricalData day_number hist_all_down constructor [] ''AAPL'' (Some ''1h'')
        ''2023-01-01'' ''2023-12-31'' (Some ''polygon'') =
       (Inl ''polygon: timeout'', [(Polygon, Dates ''AAPL'' ''1h'' ''2023-01-01'' ''2023-12-31'')])"
proof -
  have ne: "''polygon'' \<noteq> defaultProvider constructor"
    by (simp add: constructor_def)
  have q: "all_down [] (dispatch ''polygon'') ''AAPL'' = Inl ''polygon: timeout''"
    by (simp add: all_down_def dispatch_def)
  have o: "all_down [] (dispatchOptions ''polygon'') ''AAPL'' = Inl ''polygon: timeout''"
    by (simp add: all_down_def dispatchOptions_def)
  have h: "hist_all_down [] (dispatch ''polygon'')
        (hist_args_for day_number (dispatch ''polygon'') ''AAPL'' (interval_of (Some ''1h''))
           ''2023-01-01'' ''2023-12-31'') = Inl ''polygon: timeout''"
    by (simp add: hist_all_down_def dispatch_def)
  from pinned_other_failure_propagates [OF ne, of all_down "[]" "''AAPL''" "''polygon: timeout''"
      all_down "[]" hist_all_down "[]" day_number "Some ''1h''" "''2023-01-01''" "''2023-12-31''"
      all_down "[]"] q o h
  show ?thesis
    by (simp add: ne dispatch_def dispatchOptions_def hist_args_for_def interval_of_def)
qed

subsection \<open>Options chain\<close>

text \<open>
  Claim C8. For an options-chain request whose selected provider is the default provider, is
  not \<^verbatim>\<open>'polygon'\<close>, and whose adapter call fails, exactly one fallback call is made, its
  target is the Polygon adapter, and its outcome is returned.
\<close>

theorem options_default_failure_falls_back_to_polygon:
  assumes "selected svc providerArg = defaultProvider svc"
    and "defaultProvider svc \<noteq> ''polygon''"
    and "up calls (dispatchOptions (defaultProvider svc)) symb = Inl e"
  shows "getOptionsChain up svc calls symb providerArg =
           (up (calls @ [(dispatchOptions (defaultProvider svc), symb)]) Polygon symb,
            calls @ [(dispatchOptions (defaultProvider svc), symb), (Polygon, symb)])"
proof -
  have "getOptionsChain up svc (calls @ [(dispatchOptions (defaultProvider svc), symb)]) symb
          (Some ''polygon'') =
        (up (calls @ [(dispatchOptions (defaultProvider svc), symb)]) Polygon symb,
         calls @ [(dispatchOptions (defaultProvider svc), symb), (Polygon, symb)])"
    by (simp add: getOptionsChain_no_retry dispatchOptions_def)
  with assms show ?thesis
    by (subst getOptionsChain.simps) (simp add: Let_def)
qed

text \<open>
  The theorem on a fresh service (default \<^verbatim>\<open>'finnhub'\<close>) where only Polygon answers.
\<close>

theorem options_default_failure_falls_back_to_polygon_witness:
  "selected constructor None = defaultProvider constructor
   \<and> defaultProvider constructor \<noteq> ''polygon''
   \<and> polygon_only [] (dispatchOptions (defaultProvider constructor)) ''AAPL'' = Inl ''finnhub: timeout''
   \<and> getOptionsChain polygon_only constructor [] ''AAPL'' None =
       (Inr ''answer of polygon'', [(Finnhub, ''AAPL''), (Polygon, ''AAPL'')])"
proof -
  have a: "selected constructor None = defaultProvider constructor"
    by (simp add: selected_def)
  have b: "defaultProvider constructor \<noteq> ''polygon''"
    by (simp add: constructor_def)
  have c: "polygon_only [] (dispatchOptions (defaultProvider constructor)) ''AAPL'' = Inl ''finnhub: timeout''"
    by (simp add: polygon_only_def dispatchOptions_def constructor_def)
  from options_default_failure_falls_back_to_polygon
         [of constructor None polygon_only "[]" "''AAPL''" "''finnhub: timeout''", OF a b c] a b c
  show ?thesis
    by (simp add: selected_def polygon_only_def dispatchOptions_def constructor_def)
qed

text \<open>
  Claim C9, as stated, fails: the switch of \<^verbatim>\<open>getOptionsChain\<close> has no case for
  \<^verbatim>\<open>'alphavantage'\<close>, so the request takes the \<^verbatim>\<open>default\<close> branch and is served by the
  Finnhub options adapter. No error is raised, and the caller receives a chain fetched from
  a provider other than the one named.
\<close>

theorem options_alphavantage_served_by_finnhub:
  "getOptionsChain finnhub_up constructor [] ''AAPL'' (Some ''alphavantage'') =
     (Inr ''answer of finnhub'', [(Finnhub, ''AAPL'')])"
  by (simp add: getOptionsChain_no_retry constructor_def finnhub_up_def dispatchOptions_def)

text \<open>
  Claim C9, amended. An options-chain request that names \<^verbatim>\<open>'alphavantage'\<close> raises no
  capability error; it is sent to the Finnhub options adapter. If that call succeeds, its
  chain is returned after one call. If it fails, the Finnhub error is returned after that one
  call, unless \<^verbatim>\<open>'alphavantage'\<close> is also the default provider: then one fallback call
  goes to Polygon and its outcome is returned.
\<close>

theorem options_alphavantage_dispatch:
  "getOptionsChain up svc calls symb (Some ''alphavantage'') =
     (case up calls Finnhub symb of
        Inr chain \<Rightarrow> (Inr chain, calls @ [(Finnhub, symb)])
      | Inl error \<Rightarrow>
          if defaultProvider svc = ''alphavantage''
          then (up (calls @ [(Finnhub, symb)]) Polygon symb,
                calls @ [(Finnhub, symb), (Polygon, symb)])
          else (Inl error, calls @ [(Finnhub, symb)]))"
  by (subst getOptionsChain.simps)
     (auto simp add: selected_def Let_def dispatchOptions_def getOptionsChain_no_retry
        split: sum.splits)

text \<open>
  The two failure branches of the theorem: every upstream down on a fresh service, and only
  Polygon answering on a service whose default is \<^verbatim>\<open>'alphavantage'\<close>.
\<close>

theorem options_alphavantage_dispatch_witness:
  "getOptionsChain all_down constructor [] ''AAPL'' (Some ''alphavantage'') =
     (Inl ''finnhub: timeout'', [(Finnhub, ''AAPL'')])
   \<and> getOptionsChain polygon_only \<lparr>defaultProvider = ''alphavantage''\<rparr> [] ''AAPL'' (Some ''alphavantage'') =
     (Inr ''answer of polygon'', [(Finnhub, ''AAPL''), (Polygon, ''AAPL'')])"
  using options_alphavantage_dispatch [of all_down constructor "[]" "''AAPL''"]
    options_alphavantage_dispatch [of polygon_only "\<lparr>defaultProvider = ''alphavantage''\<rparr>" "[]" "''AAPL''"]
  by (simp add: all_down_def polygon_only_def constructor_def)

subsection \<open>setDefaultProvider\<close>

text \<open>
  Claim C10. \<^verbatim>\<open>setDefaultProvider(p)\<close> succeeds and stores \<open>p\<close> as the default provider
  exactly when \<open>p\<close> is one of \<^verbatim>\<open>'finnhub'\<close>, \<^verbatim>\<open>'alphavantage'\<close>, \<^verbatim>\<open>'polygon'\<close>; for every
  other string it throws an error and the service is left as it was.
\<close>

theorem setDefaultProvider_known_or_throws:
  "(provider \<in> {''finnhub'', ''alphavantage'', ''polygon''} \<longrightarrow>
      setDefaultProvider svc provider = (Inr (), svc\<lparr>defaultProvider := provider\<rparr>))
   \<and> (provider \<notin> {''finnhub'', ''alphavantage'', ''polygon''} \<longrightarrow>
      (\<exists>msg. fst (setDefaultProvider svc provider) = Inl (Error msg))
      \<and> snd (setDefaultProvider svc provider) = svc)"
  by (auto simp add: setDefaultProvider_def)

text \<open>The theorem at one accepted and one rejected id.\<close>

theorem setDefaultProvider_known_or_throws_witness:
  "''polygon'' \<in> {''finnhub'', ''alphavantage'', ''polygon''}
   \<and> setDefaultProvider constructor ''polygon'' = (Inr (), \<lparr>defaultProvider = ''polygon''\<rparr>)
   \<and> ''yahoo'' \<notin> {''finnhub'', ''alphavantage'', ''polygon''}
   \<and> (\<exists>msg. fst (setDefaultProvider constructor ''yahoo'') = Inl (Error msg))
   \<and> snd (setDefaultProvider constructor ''yahoo'') = \<lparr>defaultProvider = ''finnhub''\<rparr>"
  using setDefaultProvider_known_or_throws [of "''polygon''" constructor]
    setDefaultProvider_known_or_throws [of "''yahoo''" constructor]
  by (simp add: constructor_def)

section \<open>Properties of the historical-data adapters\<close>

text \<open>
  The Alpha Vantage adapter sorts: whatever the enumeration order of the payload, the
  timestamps of the series it returns are in ascending order. Equal timestamps are kept.
\<close>

lemma getHistoricalDataAlphaVantage_sorted:
  assumes "getHistoricalDataAlphaVantage parseDate parseFloat parseInt response symb intv from to = Inr s"
  shows "sorted (map timestamp (data s))"
  using assms
  by (auto simp add: getHistoricalDataAlphaVantage_def Let_def split: sum.splits)

text \<open>
  The Finnhub and the Polygon adapter return the bars in the order of the payload: the
  timestamps of the series are those of the payload, one for one.
\<close>

lemma finnhubLoop_timestamps:
  assumes "\<forall>i\<in>set indices. i < length (candle_t payload)"
    and "finnhubLoop payload indices rows = Inr bars"
  shows "map timestamp bars = map timestamp rows @ map (\<lambda>i. candle_t payload ! i * 1000) indices"
  using assms
proof (induction indices arbitrary: rows)
  case Nil
  then show ?case by simp
next
  case (Cons i indices)
  then show ?case
    by (auto simp add: toISOString_def split: sum.splits if_splits)
qed

lemma getHistoricalDataFinnhub_upstream_order:
  assumes "getHistoricalDataFinnhub (Inr payload) symb intv = Inr s"
  shows "map timestamp (data s) = map (\<lambda>t. t * 1000) (candle_t payload)"
proof -
  from assms obtain bars where
    loop: "finnhubLoop payload [0..<length (candle_t payload)] [] = Inr bars" and s: "data s = bars"
    by (auto simp add: getHistoricalDataFinnhub_def split: sum.splits)
  have "map timestamp bars = map (\<lambda>i. candle_t payload ! i * 1000) [0..<length (candle_t payload)]"
    using finnhubLoop_timestamps [OF _ loop] by simp
  also have "\<dots> = map (\<lambda>t. t * 1000) (candle_t payload)"
    by (intro nth_equalityI) simp_all
  finally show ?thesis using s by simp
qed

lemma polygonMap_timestamps:
  "polygonMap results = Inr bars \<Longrightarrow> map timestamp bars = map agg_t results"
  by (induction results arbitrary: bars) (auto simp add: toISOString_def split: sum.splits if_splits)

lemma getHistoricalDataPolygon_upstream_order:
  assumes "getHistoricalDataPolygon (Inr results) symb intv = Inr s"
  shows "map timestamp (data s) = map agg_t results"
  using assms
  by (auto simp add: getHistoricalDataPolygon_def polygonMap_timestamps split: sum.splits)

text \<open>
  Claim C3 says that the data of every series returned is in strictly ascending order of
  timestamp, whichever adapter served it and whatever the order of the upstream payload. The
  Finnhub adapter does not deliver that: on a payload of two candles that arrive newest first
  the call succeeds and the series holds the bar of 2023-11-16 before the bar of 2023-11-15.
\<close>

theorem getHistoricalDataFinnhub_newest_first:
  "getHistoricalDataFinnhub (Inr candles_newest_first) ''AAPL'' ''1d'' =
     Inr \<lparr>symbol = ''AAPL'', interval = ''1d'',
          data = [\<lparr>timestamp = 1700092800000, openPrice = Some 189, high = Some 191,
                    low = Some 188, close = Some 190, volume = Some 54000000\<rparr>,
                  \<lparr>timestamp = 1700006400000, openPrice = Some 187, high = Some 189,
                    low = Some 187, close = Some 188, volume = Some 53000000\<rparr>],
          source = ''finnhub''\<rparr>
   \<and> \<not> sorted_wrt (<)
         (map timestamp
            [\<lparr>timestamp = 1700092800000, openPrice = Some (189::real), high = Some 191,
               low = Some 188, close = Some 190, volume = Some 54000000\<rparr>,
             \<lparr>timestamp = 1700006400000, openPrice = Some 187, high = Some 189,
               low = Some 187, close = Some 188, volume = Some 53000000\<rparr>])"
  by (simp add: getHistoricalDataFinnhub_def candles_newest_first_def toISOString_def at_index_def
      upt_conv_Cons)

section \<open>Properties of the indicator engine\<close>

subsection \<open>RSI in exact arithmetic\<close>

lemma foldl_add_sum_list: "foldl (\<lambda>sum (x::real). sum + x) a xs = a + sum_list xs"
  by (induction xs arbitrary: a) simp_all

text \<open>
  In the exact model no result overflows. With both averages non-negative the divisor (the
  average loss, or 0.001 in its place) is positive, so \<open>RS\<close> is non-negative and
  \<open>100 - 100 / (1 + RS)\<close> lies between 0 and 100. The smoothing step keeps both averages
  non-negative. The range of the RSI in double precision is the subject of the last section.
\<close>

lemma rsi_value_range:
  fixes avgGain avgLoss :: real
  assumes "0 \<le> avgGain" and "0 \<le> avgLoss"
  shows "0 \<le> 100 - 100 / (1 + avgGain / (if avgLoss = 0 then 0.001 else avgLoss))"
    and "100 - 100 / (1 + avgGain / (if avgLoss = 0 then 0.001 else avgLoss)) \<le> 100"
proof -
  let ?d = "if avgLoss = 0 then 0.001 else avgLoss"
  have d: "0 < ?d" using assms(2) by simp
  then have rs: "0 \<le> avgGain / ?d" using assms(1) by simp
  then have one: "1 \<le> 1 + avgGain / ?d" by simp
  then have "100 / (1 + avgGain / ?d) \<le> 100 / 1"
    by (intro divide_left_mono) simp_all
  then show "0 \<le> 100 - 100 / (1 + avgGain / ?d)" by simp
  from one have "0 \<le> 100 / (1 + avgGain / ?d)" by simp
  then show "100 - 100 / (1 + avgGain / ?d) \<le> 100" by simp
qed

lemma smoothing_nonneg:
  fixes avg x :: real
  assumes "0 < period" and "0 \<le> avg" and "0 \<le> x"
  shows "0 \<le> (avg * (real period - 1) + x) / real period"
proof -
  have "0 \<le> real period - 1" using assms(1) by simp
  then have "0 \<le> avg * (real period - 1) + x" using assms(2,3) by simp
  then show ?thesis by simp
qed

lemma rsiLoop_range:
  assumes "0 < period"
  shows "0 \<le> avgGain \<Longrightarrow> 0 \<le> avgLoss \<Longrightarrow> \<forall>r\<in>set rsiValues. 0 \<le> r \<and> r \<le> 100 \<Longrightarrow>
         \<forall>r\<in>set (rsiLoop period avgGain avgLoss rsiValues changes). 0 \<le> r \<and> r \<le> 100"
proof (induction changes arbitrary: avgGain avgLoss rsiValues)
  case Nil
  then show ?case by simp
next
  case (Cons change rest)
  let ?g = "(avgGain * (real period - 1) + (if change > 0 then change else 0)) / real period"
  let ?l = "(avgLoss * (real period - 1) + (if change < 0 then \<bar>change\<bar> else 0)) / real period"
  have g: "0 \<le> ?g" using assms Cons.prems(1) by (intro smoothing_nonneg) simp_all
  have l: "0 \<le> ?l" using assms Cons.prems(2) by (intro smoothing_nonneg) simp_all
  have vs: "\<forall>r\<in>set (rsiValues @ [100 - 100 / (1 + ?g / (if ?l = 0 then 0.001 else ?l))]).
              0 \<le> r \<and> r \<le> 100"
    using Cons.prems(3) rsi_value_range [OF g l] by simp
  show ?case
    using Cons.IH [OF g l vs] by (simp add: Let_def)
qed

lemma rsiLoop_not_empty: "rsiValues \<noteq> [] \<Longrightarrow> rsiLoop period avgGain avgLoss rsiValues changes \<noteq> []"
  by (induction changes arbitrary: avgGain avgLoss rsiValues) (simp_all add: Let_def)

lemma calculateRSI_null_iff: "calculateRSI prices period = None \<longleftrightarrow> length prices < period + 1"
  by (simp add: calculateRSI_def Let_def)

lemma calculateRSI_range:
  assumes "0 < period" and "calculateRSI prices period = Some r"
  shows "0 \<le> r \<and> r \<le> 100"
proof -
  let ?changes = "priceChanges prices"
  let ?gains = "map (\<lambda>change. if change > 0 then change else 0) ?changes"
  let ?losses = "map (\<lambda>change. if change < 0 then \<bar>change\<bar> else 0) ?changes"
  let ?avgGain = "foldl (\<lambda>sum gain. sum + gain) 0 (take period ?gains) / real period"
  let ?avgLoss = "foldl (\<lambda>sum loss. sum + loss) 0 (take period ?losses) / real period"
  let ?first = "100 - 100 / (1 + ?avgGain / (if ?avgLoss = 0 then 0.001 else ?avgLoss))"
  let ?pushed = "rsiLoop period ?avgGain ?avgLoss [?first] (drop period ?changes)"
  have "\<forall>x\<in>set (take period ?gains). 0 \<le> x"
    by (auto dest!: in_set_takeD)
  then have "0 \<le> sum_list (take period ?gains)"
    by (intro sum_list_nonneg) simp
  then have g: "0 \<le> ?avgGain"
    by (simp add: foldl_add_sum_list)
  have "\<forall>x\<in>set (take period ?losses). 0 \<le> x"
    by (auto dest!: in_set_takeD)
  then have "0 \<le> sum_list (take period ?losses)"
    by (intro sum_list_nonneg) simp
  then have l: "0 \<le> ?avgLoss"
    by (simp add: foldl_add_sum_list)
  have "\<forall>r\<in>set [?first]. 0 \<le> r \<and> r \<le> 100"
    using rsi_value_range [OF g l] by simp
  then have all: "\<forall>r\<in>set ?pushed. 0 \<le> r \<and> r \<le> 100"
    by (rule rsiLoop_range [OF assms(1) g l])
  have "?pushed \<noteq> []"
    by (rule rsiLoop_not_empty) simp
  then have "last ?pushed \<in> set ?pushed"
    by (rule last_in_set)
  moreover have "calculateRSI prices period =
      (if length prices < period + 1 then None else Some (last ?pushed))"
    by (simp only: calculateRSI_def Let_def)
  with assms(2) have "Some r = (if length prices < period + 1 then None else Some (last ?pushed))"
    by (simp only:)
  then have "r = last ?pushed"
    by (cases "length prices < period + 1") (simp_all only: if_True if_False option.inject option.distinct)
  ultimately show ?thesis
    using all by blast
qed

subsection \<open>EMA\<close>

lemma calculateEMA_null_iff: "calculateEMA prices period = None \<longleftrightarrow> length prices < period"
  by (simp add: calculateEMA_def Let_def)

lemma calculateEMA_seed:
  "length prices = period \<Longrightarrow>
   calculateEMA prices period = Some (sum_list prices / real (length prices))"
  by (simp add: calculateEMA_def Let_def foldl_add_sum_list)

text \<open>
  Claim C6. \<^verbatim>\<open>calculateEMA\<close> returns \<^verbatim>\<open>null\<close> if and only if the list has fewer than
  \<open>period\<close> samples; and on the list \<open>1, 2, ..., period\<close>, whose length is the period, the
  recurrence is applied to no value and the result is the seed, the arithmetic mean of the
  whole list. For period 0 the seed of the source is \<^verbatim>\<open>0 / 0\<close>, not a mean, so the second
  part is stated for a positive period.
\<close>

theorem calculateEMA_null_iff_and_seed:
  "(calculateEMA prices period = None \<longleftrightarrow> length prices < period)
   \<and> (0 < period \<longrightarrow>
        calculateEMA (map real [1..<Suc period]) period =
          Some (sum_list (map real [1..<Suc period]) / real (length (map real [1..<Suc period]))))"
  by (simp add: calculateEMA_null_iff calculateEMA_seed)

text \<open>The theorem at period 12: the mean of 1, ..., 12 is 78 / 12; eleven samples give null.\<close>

theorem calculateEMA_null_iff_and_seed_witness:
  "(0::nat) < 12
   \<and> calculateEMA [1, 2, 3, 4, 5, 6, 7, 8, 9, 10, 11, 12] 12 = Some (78 / 12)
   \<and> calculateEMA [1, 2, 3, 4, 5, 6, 7, 8, 9, 10, 11] 12 = None"
proof -
  have l: "map real [1..<Suc 12] = [1, 2, 3, 4, 5, 6, 7, 8, 9, 10, 11, 12]"
    by code_simp
  from calculateEMA_null_iff_and_seed [of "[1, 2, 3, 4, 5, 6, 7, 8, 9, 10, 11]" 12]
  show ?thesis
    unfolding l by simp
qed

subsection \<open>MACD\<close>

text \<open>
  The signal line and the histogram are null on every input. The MACD line is a number on
  every input; with 26 samples or more it is the difference of the two averages.
\<close>

lemma calculateMACD_signal_histogram_null:
  "signalLine (calculateMACD prices) = None \<and> histogram (calculateMACD prices) = None"
  by (simp add: calculateMACD_def Let_def)

lemma calculateMACD_line_is_number: "macdLine (calculateMACD prices) \<noteq> None"
  by (simp add: calculateMACD_def Let_def)

lemma calculateMACD_line_enough_samples:
  assumes "26 \<le> length prices"
  shows "\<exists>ema12 ema26. calculateEMA prices 12 = Some ema12 \<and> calculateEMA prices 26 = Some ema26
           \<and> macdLine (calculateMACD prices) = Some (ema12 - ema26)"
  using assms by (simp add: calculateMACD_def calculateEMA_def Let_def toNumber_def)

text \<open>
  Claim C4 says that the MACD line is null whenever one of the two averages is null. On
  twelve samples the 26-period average is null and the code returns a number all the same:
  the subtraction turns the null into 0 and the MACD line is the 12-period average, 13 / 2.
\<close>

theorem calculateMACD_twelve_samples:
  "calculateEMA [1, 2, 3, 4, 5, 6, 7, 8, 9, 10, 11, 12] 26 = None
   \<and> calculateMACD [1, 2, 3, 4, 5, 6, 7, 8, 9, 10, 11, 12] =
       \<lparr>macdLine = Some (13 / 2), signalLine = None, histogram = None\<rparr>"
  by code_simp

subsection \<open>calculateIndicators\<close>

text \<open>
  Claim C7. \<^verbatim>\<open>calculateIndicators\<close> returns the empty object exactly when the series is
  absent or empty. For every non-empty series it returns the four fields \<open>rsi\<close>,
  \<open>emaShort\<close>, \<open>emaLong\<close> and \<open>macd\<close>, computed from the closing prices with the periods 14,
  12 and 26. On a series of 50 bars \<open>rsi\<close>, \<open>emaShort\<close> and \<open>emaLong\<close> are not null, and
  \<open>macd\<close> has a MACD line with a null signal line and a null histogram.
\<close>

theorem calculateIndicators_shape:
  "(calculateIndicators prices = EmptyObject \<longleftrightarrow> prices = None \<or> prices = Some [])
   \<and> (\<forall>bars. prices = Some bars \<and> bars \<noteq> [] \<longrightarrow>
         calculateIndicators prices =
           IndicatorSet \<lparr>rsi = calculateRSI (map close bars) 14,
                         emaShort = calculateEMA (map close bars) 12,
                         emaLong = calculateEMA (map close bars) 26,
                         macd = calculateMACD (map close bars)\<rparr>)
   \<and> (\<forall>bars. prices = Some bars \<and> length bars = 50 \<longrightarrow>
         (\<exists>r s l m. calculateIndicators prices =
            IndicatorSet \<lparr>rsi = Some r, emaShort = Some s, emaLong = Some l,
                          macd = \<lparr>macdLine = Some m, signalLine = None, histogram = None\<rparr>\<rparr>))"
proof (intro conjI allI impI)
  show "calculateIndicators prices = EmptyObject \<longleftrightarrow> prices = None \<or> prices = Some []"
    by (simp add: calculateIndicators_def Let_def split: option.splits)
next
  fix bars assume "prices = Some bars \<and> bars \<noteq> []"
  then show "calculateIndicators prices =
           IndicatorSet \<lparr>rsi = calculateRSI (map close bars) 14,
                         emaShort = calculateEMA (map close bars) 12,
                         emaLong = calculateEMA (map close bars) 26,
                         macd = calculateMACD (map close bars)\<rparr>"
    by (simp add: calculateIndicators_def Let_def)
next
  fix bars assume a: "prices = Some bars \<and> length bars = 50"
  let ?c = "map close bars"
  have len: "length ?c = 50" using a by simp
  obtain r where r: "calculateRSI ?c 14 = Some r"
    using calculateRSI_null_iff [of ?c 14] len by (cases "calculateRSI ?c 14") simp_all
  obtain s where s: "calculateEMA ?c 12 = Some s"
    using calculateEMA_null_iff [of ?c 12] len by (cases "calculateEMA ?c 12") simp_all
  obtain l where l: "calculateEMA ?c 26 = Some l"
    using calculateEMA_null_iff [of ?c 26] len by (cases "calculateEMA ?c 26") simp_all
  have m: "calculateMACD ?c = \<lparr>macdLine = Some (s - l), signalLine = None, histogram = None\<rparr>"
    by (simp add: calculateMACD_def Let_def s l toNumber_def)
  have "bars \<noteq> []" using a by auto
  with a show "\<exists>r s l m. calculateIndicators prices =
            IndicatorSet \<lparr>rsi = Some r, emaShort = Some s, emaLong = Some l,
                          macd = \<lparr>macdLine = Some m, signalLine = None, histogram = None\<rparr>\<rparr>"
    by (simp add: calculateIndicators_def Let_def r s l m)
qed

text \<open>The theorem at a series of fifty bars, at the empty series and at an absent one.\<close>

theorem calculateIndicators_shape_witness:
  "length fifty_bars = 50
   \<and> (\<exists>r s l m. calculateIndicators (Some fifty_bars) =
          IndicatorSet \<lparr>rsi = Some r, emaShort = Some s, emaLong = Some l,
                        macd = \<lparr>macdLine = Some m, signalLine = None, histogram = None\<rparr>\<rparr>)
   \<and> calculateIndicators (Some []) = EmptyObject
   \<and> calculateIndicators None = EmptyObject"
proof -
  have len: "length fifty_bars = 50"
    by (simp add: fifty_bars_def)
  from calculateIndicators_shape [of "Some fifty_bars"] len
    calculateIndicators_shape [of "Some []"] calculateIndicators_shape [of None]
  show ?thesis by simp
qed

section \<open>Properties of calculateRSI in double precision\<close>

subsection \<open>Rounded results\<close>

text \<open>
  A monotone rounding that leaves 0, 1 and 100 as they are keeps a result that is
  non-negative, at least 1, or between 0 and 100 on the same side of these bounds. A
  non-negative result may overflow to \<^verbatim>\<open>Infinity\<close>, never to \<^verbatim>\<open>-Infinity\<close> or \<^verbatim>\<open>NaN\<close>.
\<close>

lemma maxValue_bounds: "100 \<le> maxValue" "0 < maxValue"
  by (simp_all add: maxValue_def)

lemma rounded_nonNegative:
  assumes "mono rnd" and "rnd 0 = 0" and "0 \<le> x"
  shows "nonNegative (rounded rnd x)"
proof -
  have "rnd 0 \<le> rnd x" using assms(1,3) by (rule monoD)
  then have "0 \<le> rnd x" using assms(2) by simp
  then show ?thesis using maxValue_bounds(2) by (simp add: rounded_def)
qed

lemma rounded_within:
  assumes "mono rnd" and "rnd 0 = 0" and "rnd 100 = 100" and "0 \<le> x" and "x \<le> 100"
  shows "\<exists>y. rounded rnd x = Finite y \<and> 0 \<le> y \<and> y \<le> 100"
proof -
  have "rnd 0 \<le> rnd x" using assms(1,4) by (rule monoD)
  then have lo: "0 \<le> rnd x" using assms(2) by simp
  have "rnd x \<le> rnd 100" using assms(1,5) by (rule monoD)
  then have hi: "rnd x \<le> 100" using assms(3) by simp
  from lo hi maxValue_bounds show ?thesis by (simp add: rounded_def)
qed

lemma rounded_at_least_one:
  assumes "mono rnd" and "rnd 1 = 1" and "1 \<le> x"
  shows "rounded rnd x = Infinity \<or> (\<exists>y. rounded rnd x = Finite y \<and> 1 \<le> y)"
proof -
  have "rnd 1 \<le> rnd x" using assms(1,3) by (rule monoD)
  then have "1 \<le> rnd x" using assms(2) by simp
  then show ?thesis using maxValue_bounds(2) by (simp add: rounded_def)
qed

subsection \<open>The averages are never negative and never NaN\<close>

lemma jsAdd_nonNegative:
  assumes "mono rnd" and "rnd 0 = 0" and "nonNegative a" and "nonNegative b"
  shows "nonNegative (jsAdd rnd a b)"
  using assms(3,4) rounded_nonNegative [OF assms(1,2)]
  by (cases a; cases b) simp_all

lemma jsMul_nonNegative:
  assumes "mono rnd" and "rnd 0 = 0" and "nonNegative a" and "0 < q"
  shows "nonNegative (jsMul rnd a (Finite q))"
  using assms(3,4) rounded_nonNegative [OF assms(1,2)]
  by (cases a) (simp_all add: infinityOf_def)

lemma jsDiv_nonNegative:
  assumes "mono rnd" and "rnd 0 = 0" and "nonNegative a" and "0 < q"
  shows "nonNegative (jsDiv rnd a (Finite q))"
  using assms(3,4) rounded_nonNegative [OF assms(1,2)]
  by (cases a) simp_all

lemma gain_nonNegative: "nonNegative (if greaterThanZero change then change else Finite 0)"
  by (cases change) simp_all

lemma loss_nonNegative: "nonNegative (if lessThanZero change then jsAbs change else Finite 0)"
  by (cases change) simp_all

lemma foldl_jsAdd_nonNegative:
  assumes "mono rnd" and "rnd 0 = 0"
  shows "nonNegative a \<Longrightarrow> \<forall>x\<in>set xs. nonNegative x \<Longrightarrow>
         nonNegative (foldl (\<lambda>sum x. jsAdd rnd sum x) a xs)"
proof (induction xs arbitrary: a)
  case Nil
  then show ?case by simp
next
  case (Cons x xs)
  have "nonNegative (jsAdd rnd a x)"
    using Cons.prems by (intro jsAdd_nonNegative [OF assms]) simp_all
  then show ?case
    using Cons.IH Cons.prems(2) by simp
qed

subsection \<open>One RSI value\<close>

text \<open>
  The divisor is \<^verbatim>\<open>Infinity\<close> exactly when the average loss is, and a positive double
  otherwise. So \<open>RS\<close> is \<^verbatim>\<open>NaN\<close> exactly when both averages are \<^verbatim>\<open>Infinity\<close>, and
  non-negative otherwise; and from a non-negative \<open>RS\<close>, \<^verbatim>\<open>Infinity\<close> included, the
  expression \<^verbatim>\<open>100 - 100 / (1 + RS)\<close> gives a double between 0 and 100.
\<close>

lemma clamp_cases:
  assumes "mono rnd" and "rnd 0 = 0" and "rnd 1 = 1" and "0 < rnd (1 / 1000)" and "nonNegative avgLoss"
  shows "(avgLoss = Infinity \<and> (if equalsZero avgLoss then rounded rnd (1 / 1000) else avgLoss) = Infinity)
       \<or> (avgLoss \<noteq> Infinity
            \<and> (\<exists>y. (if equalsZero avgLoss then rounded rnd (1 / 1000) else avgLoss) = Finite y \<and> 0 < y))"
proof -
  have "rnd (1 / 1000) \<le> rnd 1" using assms(1) by (rule monoD) simp
  then have "rnd (1 / 1000) \<le> maxValue" using assms(3) maxValue_bounds(1) by simp
  then have lit: "rounded rnd (1 / 1000) = Finite (rnd (1 / 1000))"
    using assms(4) maxValue_bounds(2) by (simp add: rounded_def)
  show ?thesis
    using assms(4,5) lit by (cases avgLoss) auto
qed

lemma rs_cases:
  assumes "mono rnd" and "rnd 0 = 0" and "nonNegative avgGain"
    and "d = Infinity \<or> (\<exists>y. d = Finite y \<and> 0 < y)"
  shows "(jsDiv rnd avgGain d = NaN \<and> avgGain = Infinity \<and> d = Infinity)
       \<or> (nonNegative (jsDiv rnd avgGain d) \<and> \<not> (avgGain = Infinity \<and> d = Infinity))"
proof -
  from assms(4) show ?thesis
  proof
    assume "d = Infinity"
    then show ?thesis using assms(3) by (cases avgGain) simp_all
  next
    assume "\<exists>y. d = Finite y \<and> 0 < y"
    then obtain y where d: "d = Finite y" and y: "0 < y" by blast
    have "nonNegative (jsDiv rnd avgGain (Finite y))"
      using assms(1,2,3) y by (rule jsDiv_nonNegative)
    then show ?thesis using d by simp
  qed
qed

lemma rsi_from_rs:
  assumes "mono rnd" and "rnd 0 = 0" and "rnd 1 = 1" and "rnd 100 = 100" and "nonNegative rs"
  shows "\<exists>x. jsSub rnd (Finite 100) (jsDiv rnd (Finite 100) (jsAdd rnd (Finite 1) rs)) = Finite x
           \<and> 0 \<le> x \<and> x \<le> 100"
proof -
  have one: "jsAdd rnd (Finite 1) rs = Infinity \<or> (\<exists>y. jsAdd rnd (Finite 1) rs = Finite y \<and> 1 \<le> y)"
  proof (cases rs)
    case (Finite r)
    then have "0 \<le> r" using assms(5) by simp
    then have "1 \<le> 1 + r" by simp
    then show ?thesis
      using rounded_at_least_one [OF assms(1,3)] Finite by simp
  qed (use assms(5) in simp_all)
  have quot: "\<exists>z. jsDiv rnd (Finite 100) (jsAdd rnd (Finite 1) rs) = Finite z \<and> 0 \<le> z \<and> z \<le> 100"
    using one
  proof
    assume "jsAdd rnd (Finite 1) rs = Infinity"
    then show ?thesis by simp
  next
    assume "\<exists>y. jsAdd rnd (Finite 1) rs = Finite y \<and> 1 \<le> y"
    then obtain y where s: "jsAdd rnd (Finite 1) rs = Finite y" and y: "1 \<le> y" by blast
    have "0 \<le> 100 / y" using y by simp
    moreover have "100 / y \<le> 100 / 1" using y by (intro divide_left_mono) simp_all
    ultimately have "\<exists>z. rounded rnd (100 / y) = Finite z \<and> 0 \<le> z \<and> z \<le> 100"
      by (intro rounded_within [OF assms(1,2,4)]) simp_all
    then show ?thesis using s y by simp
  qed
  then obtain z where q: "jsDiv rnd (Finite 100) (jsAdd rnd (Finite 1) rs) = Finite z"
    and z: "0 \<le> z" "z \<le> 100" by blast
  have "\<exists>x. rounded rnd (100 - z) = Finite x \<and> 0 \<le> x \<and> x \<le> 100"
    using z by (intro rounded_within [OF assms(1,2,4)]) simp_all
  then show ?thesis using q by (simp add: jsSub_def)
qed

lemma rsiValue_double_cases:
  assumes "mono rnd" and "rnd 0 = 0" and "rnd 1 = 1" and "rnd 100 = 100" and "0 < rnd (1 / 1000)"
    and "nonNegative avgGain" and "nonNegative avgLoss"
  shows "(rsiValue_double rnd avgGain avgLoss = NaN \<and> avgGain = Infinity \<and> avgLoss = Infinity)
       \<or> ((\<exists>x. rsiValue_double rnd avgGain avgLoss = Finite x \<and> 0 \<le> x \<and> x \<le> 100)
            \<and> \<not> (avgGain = Infinity \<and> avgLoss = Infinity))"
proof -
  let ?d = "if equalsZero avgLoss then rounded rnd (1 / 1000) else avgLoss"
  have c: "(avgLoss = Infinity \<and> ?d = Infinity) \<or> (avgLoss \<noteq> Infinity \<and> (\<exists>y. ?d = Finite y \<and> 0 < y))"
    using assms(1,2,3,5,7) by (rule clamp_cases)
  then have d: "?d = Infinity \<or> (\<exists>y. ?d = Finite y \<and> 0 < y)" by blast
  have same: "?d = Infinity \<longleftrightarrow> avgLoss = Infinity" using c by auto
  have v: "rsiValue_double rnd avgGain avgLoss =
      jsSub rnd (Finite 100) (jsDiv rnd (Finite 100) (jsAdd rnd (Finite 1) (jsDiv rnd avgGain ?d)))"
    by (simp only: rsiValue_double_def Let_def)
  from rs_cases [OF assms(1,2,6) d] show ?thesis
  proof
    assume a: "jsDiv rnd avgGain ?d = NaN \<and> avgGain = Infinity \<and> ?d = Infinity"
    then have n: "jsDiv rnd avgGain ?d = NaN" by blast
    have "rsiValue_double rnd avgGain avgLoss = NaN"
      by (simp only: v n) (simp add: jsSub_def)
    then show ?thesis using a same by blast
  next
    assume a: "nonNegative (jsDiv rnd avgGain ?d) \<and> \<not> (avgGain = Infinity \<and> ?d = Infinity)"
    then have "\<exists>x. rsiValue_double rnd avgGain avgLoss = Finite x \<and> 0 \<le> x \<and> x \<le> 100"
      unfolding v by (intro rsi_from_rs [OF assms(1,2,3,4)]) simp
    then show ?thesis using a same by blast
  qed
qed

subsection \<open>The loop\<close>

text \<open>
  Through the loop both averages stay non-negative, and the last element of
  \<^verbatim>\<open>rsiValues\<close> is the RSI value of the current averages.
\<close>

lemma period_minus_one:
  assumes "mono rnd" and "rnd 1 = 1" and "rnd 100 = 100" and "2 \<le> period" and "period \<le> 100"
  shows "\<exists>q. jsSub rnd (Finite (real period)) (Finite 1) = Finite q \<and> 0 < q"
proof -
  have "rnd 1 \<le> rnd (real period - 1)" using assms(1) by (rule monoD) (use assms(4) in simp)
  then have lo: "1 \<le> rnd (real period - 1)" using assms(2) by simp
  have "rnd (real period - 1) \<le> rnd 100" using assms(1) by (rule monoD) (use assms(5) in simp)
  then have hi: "rnd (real period - 1) \<le> maxValue" using assms(3) maxValue_bounds(1) by simp
  from lo hi maxValue_bounds(2) show ?thesis
    by (simp add: jsSub_def rounded_def)
qed

lemma smoothing_double_nonNegative:
  assumes "mono rnd" and "rnd 0 = 0" and "rnd 1 = 1" and "rnd 100 = 100"
    and "2 \<le> period" and "period \<le> 100" and "nonNegative avg" and "nonNegative x"
  shows "nonNegative
           (jsDiv rnd (jsAdd rnd (jsMul rnd avg (jsSub rnd (Finite (real period)) (Finite 1))) x)
              (Finite (real period)))"
proof -
  obtain q where q: "jsSub rnd (Finite (real period)) (Finite 1) = Finite q" and pos: "0 < q"
    using period_minus_one [OF assms(1,3,4,5,6)] by blast
  have "nonNegative (jsMul rnd avg (Finite q))"
    using assms(1,2,7) pos by (rule jsMul_nonNegative)
  then have "nonNegative (jsAdd rnd (jsMul rnd avg (Finite q)) x)"
    using assms(8) by (intro jsAdd_nonNegative [OF assms(1,2)])
  moreover have "0 < real period" using assms(5) by simp
  ultimately show ?thesis
    unfolding q by (intro jsDiv_nonNegative [OF assms(1,2)])
qed

lemma rsiLoop_double_invariant:
  assumes "mono rnd" and "rnd 0 = 0" and "rnd 1 = 1" and "rnd 100 = 100"
    and "2 \<le> period" and "period \<le> 100"
  shows "nonNegative avgGain \<Longrightarrow> nonNegative avgLoss \<Longrightarrow>
         rsiValues \<noteq> [] \<Longrightarrow> last rsiValues = rsiValue_double rnd avgGain avgLoss \<Longrightarrow>
         rsiLoop_double rnd period avgGain avgLoss rsiValues changes = (g, l, vs) \<Longrightarrow>
         nonNegative g \<and> nonNegative l \<and> vs \<noteq> [] \<and> last vs = rsiValue_double rnd g l"
proof (induction changes arbitrary: avgGain avgLoss rsiValues)
  case Nil
  then show ?case by simp
next
  case (Cons change rest)
  let ?g = "jsDiv rnd (jsAdd rnd (jsMul rnd avgGain (jsSub rnd (Finite (real period)) (Finite 1)))
               (if greaterThanZero change then change else Finite 0)) (Finite (real period))"
  let ?l = "jsDiv rnd (jsAdd rnd (jsMul rnd avgLoss (jsSub rnd (Finite (real period)) (Finite 1)))
               (if lessThanZero change then jsAbs change else Finite 0)) (Finite (real period))"
  have g: "nonNegative ?g"
    using Cons.prems(1) gain_nonNegative by (intro smoothing_double_nonNegative [OF assms])
  have l: "nonNegative ?l"
    using Cons.prems(2) loss_nonNegative by (intro smoothing_double_nonNegative [OF assms])
  have run: "rsiLoop_double rnd period ?g ?l (rsiValues @ [rsiValue_double rnd ?g ?l]) rest = (g, l, vs)"
    using Cons.prems(5) by (simp add: Let_def)
  show ?case
    by (rule Cons.IH [OF g l _ _ run]) simp_all
qed

lemma rsiRun_double_invariant:
  assumes "mono rnd" and "rnd 0 = 0" and "rnd 1 = 1" and "rnd 100 = 100"
    and "2 \<le> period" and "period \<le> 100"
    and "rsiRun_double rnd prices period = (g, l, vs)"
  shows "nonNegative g \<and> nonNegative l \<and> vs \<noteq> [] \<and> last vs = rsiValue_double rnd g l"
proof -
  let ?changes = "priceChanges_double rnd prices"
  let ?gains = "map (\<lambda>change. if greaterThanZero change then change else Finite 0) ?changes"
  let ?losses = "map (\<lambda>change. if lessThanZero change then jsAbs change else Finite 0) ?changes"
  let ?avgGain = "jsDiv rnd (foldl (\<lambda>sum gain. jsAdd rnd sum gain) (Finite 0) (take period ?gains))
                    (Finite (real period))"
  let ?avgLoss = "jsDiv rnd (foldl (\<lambda>sum loss. jsAdd rnd sum loss) (Finite 0) (take period ?losses))
                    (Finite (real period))"
  have pos: "0 < real period" using assms(5) by simp
  have "\<forall>x\<in>set (take period ?gains). nonNegative x"
  proof
    fix x assume "x \<in> set (take period ?gains)"
    then have "x \<in> set ?gains" by (rule in_set_takeD)
    then obtain change where "x = (if greaterThanZero change then change else Finite 0)"
      unfolding set_map by (rule imageE)
    then show "nonNegative x" by (simp only: gain_nonNegative)
  qed
  then have "nonNegative (foldl (\<lambda>sum gain. jsAdd rnd sum gain) (Finite 0) (take period ?gains))"
    by (intro foldl_jsAdd_nonNegative [OF assms(1,2)]) simp_all
  then have g: "nonNegative ?avgGain"
    using pos by (intro jsDiv_nonNegative [OF assms(1,2)])
  have "\<forall>x\<in>set (take period ?losses). nonNegative x"
  proof
    fix x assume "x \<in> set (take period ?losses)"
    then have "x \<in> set ?losses" by (rule in_set_takeD)
    then obtain change where "x = (if lessThanZero change then jsAbs change else Finite 0)"
      unfolding set_map by (rule imageE)
    then show "nonNegative x" by (simp only: loss_nonNegative)
  qed
  then have "nonNegative (foldl (\<lambda>sum loss. jsAdd rnd sum loss) (Finite 0) (take period ?losses))"
    by (intro foldl_jsAdd_nonNegative [OF assms(1,2)]) simp_all
  then have l: "nonNegative ?avgLoss"
    using pos by (intro jsDiv_nonNegative [OF assms(1,2)])
  have run: "rsiLoop_double rnd period ?avgGain ?avgLoss [rsiValue_double rnd ?avgGain ?avgLoss]
               (drop period ?changes) = (g, l, vs)"
    using assms(7) by (simp only: rsiRun_double_def Let_def)
  show ?thesis
    by (rule rsiLoop_double_invariant [OF assms(1-6) g l _ _ run]) simp_all
qed

subsection \<open>Null, NaN and the range\<close>

lemma calculateRSI_double_null_iff:
  "calculateRSI_double rnd prices period = None \<longleftrightarrow> length prices < period + 1"
  by (simp add: calculateRSI_double_def)

text \<open>The two models return null on the same series.\<close>

lemma calculateRSI_double_null_agrees:
  "calculateRSI_double rnd (map Finite prices) period = None \<longleftrightarrow> calculateRSI prices period = None"
  by (simp add: calculateRSI_double_null_iff calculateRSI_null_iff)

text \<open>
  Claim C5, amended. For every list of closing prices and period 14, \<^verbatim>\<open>calculateRSI\<close>
  returns \<^verbatim>\<open>null\<close> if and only if the list has fewer than \<open>period + 1\<close> samples. A
  non-null result is \<^verbatim>\<open>NaN\<close> exactly when both the average gain and the average loss
  have overflowed to \<^verbatim>\<open>Infinity\<close> by the time the function returns; every other non-null
  result is a double in the closed interval from 0 to 100. This holds for every rounding
  that is monotone, leaves 0, 1 and 100 as they are and gives a positive \<^verbatim>\<open>0.001\<close>, as
  rounding to the nearest double does.
\<close>

theorem calculateRSI_double_null_nan_range:
  assumes "mono rnd" and "rnd 0 = 0" and "rnd 1 = 1" and "rnd 100 = 100" and "0 < rnd (1 / 1000)"
  shows "(calculateRSI_double rnd prices 14 = None \<longleftrightarrow> length prices < 14 + 1)
       \<and> (\<forall>v. calculateRSI_double rnd prices 14 = Some v \<longrightarrow>
             (v = NaN \<longleftrightarrow> fst (rsiRun_double rnd prices 14) = Infinity
                           \<and> fst (snd (rsiRun_double rnd prices 14)) = Infinity)
           \<and> (v \<noteq> NaN \<longrightarrow> (\<exists>x. v = Finite x \<and> 0 \<le> x \<and> x \<le> 100)))"
proof (intro conjI allI impI)
  show "calculateRSI_double rnd prices 14 = None \<longleftrightarrow> length prices < 14 + 1"
    by (rule calculateRSI_double_null_iff)
next
  fix v assume some: "calculateRSI_double rnd prices 14 = Some v"
  obtain g l vs where run: "rsiRun_double rnd prices 14 = (g, l, vs)"
    by (cases "rsiRun_double rnd prices 14") auto
  have inv: "nonNegative g \<and> nonNegative l \<and> vs \<noteq> [] \<and> last vs = rsiValue_double rnd g l"
    using assms(1-4) _ _ run by (rule rsiRun_double_invariant) simp_all
  have "v = last vs"
    using some run by (simp add: calculateRSI_double_def split: if_splits)
  then have v: "v = rsiValue_double rnd g l" using inv by simp
  have cases: "(v = NaN \<and> g = Infinity \<and> l = Infinity)
       \<or> ((\<exists>x. v = Finite x \<and> 0 \<le> x \<and> x \<le> 100) \<and> \<not> (g = Infinity \<and> l = Infinity))"
    unfolding v using assms inv by (intro rsiValue_double_cases) simp_all
  show "v = NaN \<longleftrightarrow> fst (rsiRun_double rnd prices 14) = Infinity
                      \<and> fst (snd (rsiRun_double rnd prices 14)) = Infinity"
    using cases run by auto
  show "\<exists>x. v = Finite x \<and> 0 \<le> x \<and> x \<le> 100" if "v \<noteq> NaN"
    using cases that by blast
qed

subsection \<open>Two runs\<close>

text \<open>
  On the alternating prices every change overflows: the changes are \<^verbatim>\<open>-Infinity\<close> and
  \<^verbatim>\<open>Infinity\<close> in turn, both seed averages are \<^verbatim>\<open>Infinity\<close>, and \<open>RS\<close> is
  \<^verbatim>\<open>Infinity / Infinity\<close>. No result of this run needs rounding. On the rising prices every
  change is a gain of 1 and the average loss is replaced by 0.001.
\<close>

lemma alternating_changes:
  "priceChanges_double exact alternating_prices =
     [NegInfinity, Infinity, NegInfinity, Infinity, NegInfinity, Infinity, NegInfinity,
      Infinity, NegInfinity, Infinity, NegInfinity, Infinity, NegInfinity, Infinity]"
  by (simp add: alternating_prices_def jsSub_def rounded_def exact_def maxValue_def)

lemma alternating_run: "rsiRun_double exact alternating_prices 14 = (Infinity, Infinity, [NaN])"
  by (simp add: rsiRun_double_def alternating_changes Let_def rsiValue_double_def jsSub_def
      rounded_def exact_def maxValue_def)

lemma rising_result:
  "calculateRSI_double exact rising_prices 14 = Some (Finite (100000 / 1001))"
  by (simp add: calculateRSI_double_def rsiRun_double_def rising_prices_def Let_def
      rsiValue_double_def jsSub_def rounded_def exact_def maxValue_def)

lemma exact_rounding:
  "mono exact" "exact 0 = 0" "exact 1 = 1" "exact 100 = 100" "0 < exact (1 / 1000)"
  by (simp_all add: exact_def mono_def)

lemma alternating_result: "calculateRSI_double exact alternating_prices 14 = Some NaN"
proof -
  have "length alternating_prices = 15"
    by (simp add: alternating_prices_def)
  then have "calculateRSI_double exact alternating_prices 14 =
      Some (last (snd (snd (rsiRun_double exact alternating_prices 14))))"
    by (simp add: calculateRSI_double_def)
  then show ?thesis
    by (simp only: alternating_run) simp
qed

text \<open>
  Claim C5, as stated, fails: it says that every non-null RSI of a list of finite prices lies
  between 0 and 100. The fifteen alternating prices are finite doubles, the list is long
  enough for period 14, and the result is \<^verbatim>\<open>NaN\<close>, which is not null and not in the
  interval.
\<close>

theorem calculateRSI_double_alternating:
  "(2::real) ^ 1023 \<le> maxValue
   \<and> length alternating_prices = 15
   \<and> calculateRSI_double exact alternating_prices 14 = Some NaN"
  by (simp add: alternating_result) (simp add: alternating_prices_def maxValue_def)

text \<open>
  The theorem with the rounding that changes nothing, at the rising prices (a value in the
  interval, the averages not both infinite) and at the alternating prices (\<^verbatim>\<open>NaN\<close>, both
  averages infinite).
\<close>

theorem calculateRSI_double_null_nan_range_witness:
  "mono exact \<and> exact 0 = 0 \<and> exact 1 = 1 \<and> exact 100 = 100 \<and> 0 < exact (1 / 1000)
   \<and> calculateRSI_double exact rising_prices 14 = Some (Finite (100000 / 1001))
   \<and> \<not> (fst (rsiRun_double exact rising_prices 14) = Infinity
         \<and> fst (snd (rsiRun_double exact rising_prices 14)) = Infinity)
   \<and> (0::real) \<le> 100000 / 1001 \<and> (100000 / 1001 :: real) \<le> 100
   \<and> calculateRSI_double exact alternating_prices 14 = Some NaN
   \<and> fst (rsiRun_double exact alternating_prices 14) = Infinity
   \<and> fst (snd (rsiRun_double exact alternating_prices 14)) = Infinity"
proof -
  note range = calculateRSI_double_null_nan_range [OF exact_rounding]
  have "\<not> (fst (rsiRun_double exact rising_prices 14) = Infinity
         \<and> fst (snd (rsiRun_double exact rising_prices 14)) = Infinity)"
    and "(0::real) \<le> 100000 / 1001 \<and> (100000 / 1001 :: real) \<le> 100"
    using range [of rising_prices] rising_result by auto
  moreover have "fst (rsiRun_double exact alternating_prices 14) = Infinity
     \<and> fst (snd (rsiRun_double exact alternating_prices 14)) = Infinity"
    using range [of alternating_prices] alternating_result by auto
  ultimately show ?thesis
    using exact_rounding rising_result alternating_result by simp
qed

end
